theory Spec2Isabelle
  imports Complex_Main "HOL-Library.Multiset"
begin

section \<open>Strings\<close>

text \<open>
  JavaScript strings are modelled as \<^typ>\<open>string\<close> over ASCII text. \<open>toLowerCase\<close> maps the
  letters A to Z to a to z and leaves every other character alone; \<open>trim\<close> strips
  the ASCII white space (tab, line feed, vertical tab, form feed, carriage return, space) from
  both ends; \<open>includesStr s t\<close> is \<open>s.includes(t)\<close>: the argument occurs as a
  contiguous substring.
\<close>

definition lowerChar :: "char \<Rightarrow> char" where
  "lowerChar c =
     (case map_of (zip ''ABCDEFGHIJKLMNOPQRSTUVWXYZ'' ''abcdefghijklmnopqrstuvwxyz'') c of
        None \<Rightarrow> c
      | Some d \<Rightarrow> d)"

definition toLowerCase :: "string \<Rightarrow> string" where
  "toLowerCase s = map lowerChar s"

definition isWhiteSpace :: "char \<Rightarrow> bool" where
  "isWhiteSpace c = (c \<in> set [CHR 0x09, CHR 0x0A, CHR 0x0B, CHR 0x0C, CHR 0x0D, CHR 0x20])"

definition trim :: "string \<Rightarrow> string" where
  "trim s = rev (dropWhile isWhiteSpace (rev (dropWhile isWhiteSpace s)))"

fun startsWith :: "string \<Rightarrow> string \<Rightarrow> bool" where
  "startsWith s [] = True"
| "startsWith [] (c # t) = False"
| "startsWith (d # s) (c # t) = (d = c \<and> startsWith s t)"

fun includesStr :: "string \<Rightarrow> string \<Rightarrow> bool" where
  "includesStr [] t = (t = [])"
| "includesStr (c # s) t = (startsWith (c # s) t \<or> includesStr s t)"

section \<open>Numbers\<close>

text \<open>
  A JavaScript number is an IEEE 754 binary64 value. A finite one is modelled by the
  rational it denotes (\<open>Fin\<close>); the two infinities and \<open>NaN\<close> are values of their own. The
  negative zero is not told apart from zero: the two compare equal and print alike.

  \<open>fl x\<close> is the number an operation returns when its exact result is \<open>x\<close>: the nearest
  value with a 53-bit significand, a tie going to the even significand, with the subnormal
  spacing \<open>2^-1074\<close> below \<open>2^-1022\<close>, and an infinity when the rounded magnitude
  reaches \<open>2^1024\<close>. \<open>floorLog2 x\<close> is the exponent of a positive \<open>x\<close>, the \<open>e\<close> with
  \<open>2^e \<le> x < 2^(e+1)\<close>.

  The numbers a row carries (\<open>spend\<close>, \<open>conversions\<close>, \<open>ctr\<close>) are finite; \<open>clicks\<close> and
  \<open>impressions\<close> are integers, as \<open>parseInt\<close> leaves them.
\<close>

datatype jsnum = Fin rat | PosInf | NegInf | NaN

function bitLength :: "int \<Rightarrow> int" where
  "bitLength n = (if n \<le> 0 then 0 else 1 + bitLength (n div 2))"
  by pat_completeness auto
termination
  by (relation "measure nat") auto

definition pow2 :: "int \<Rightarrow> rat" where
  "pow2 k = (if k \<ge> 0 then 2 ^ nat k else 1 / 2 ^ nat (- k))"

definition floorLog2 :: "rat \<Rightarrow> int" where
  "floorLog2 x =
     (let (a, b) = quotient_of x;
          k = bitLength a - bitLength b
      in if pow2 k \<le> x then k else k - 1)"

definition roundHalfEven :: "rat \<Rightarrow> int" where
  "roundHalfEven r =
     (let f = \<lfloor>r\<rfloor>;
          d = r - of_int f
      in if d < 1 / 2 then f
         else if d > 1 / 2 then f + 1
         else if even f then f else f + 1)"

definition fl :: "rat \<Rightarrow> jsnum" where
  "fl x =
     (if x = 0 then Fin 0
      else
        (let ax = \<bar>x\<bar>;
             e = max (floorLog2 ax) (- 1022);
             q = pow2 (e - 52);
             n = roundHalfEven (ax / q)
         in if e > 1023 \<or> (e = 1023 \<and> n \<ge> 2 ^ 53) then (if x > 0 then PosInf else NegInf)
            else Fin (if x > 0 then of_int n * q else - (of_int n * q))))"

text \<open>The operators \<open>+\<close>, \<open>*\<close> and \<open>/\<close> on numbers.\<close>

fun jsAdd :: "jsnum \<Rightarrow> jsnum \<Rightarrow> jsnum" where
  "jsAdd (Fin a) (Fin b) = fl (a + b)"
| "jsAdd NaN y = NaN"
| "jsAdd x NaN = NaN"
| "jsAdd PosInf NegInf = NaN"
| "jsAdd NegInf PosInf = NaN"
| "jsAdd PosInf y = PosInf"
| "jsAdd NegInf y = NegInf"
| "jsAdd (Fin a) y = y"

fun jsNeg :: "jsnum \<Rightarrow> jsnum" where
  "jsNeg (Fin a) = Fin (- a)"
| "jsNeg PosInf = NegInf"
| "jsNeg NegInf = PosInf"
| "jsNeg NaN = NaN"

text \<open>An infinity times or over a finite number: the sign follows the finite operand.\<close>

definition signedInf :: "jsnum \<Rightarrow> rat \<Rightarrow> jsnum" where
  "signedInf x b = (if b < 0 then jsNeg x else x)"

fun jsMul :: "jsnum \<Rightarrow> jsnum \<Rightarrow> jsnum" where
  "jsMul (Fin a) (Fin b) = fl (a * b)"
| "jsMul NaN y = NaN"
| "jsMul x NaN = NaN"
| "jsMul (Fin a) y = (if a = 0 then NaN else signedInf y a)"
| "jsMul x (Fin b) = (if b = 0 then NaN else signedInf x b)"
| "jsMul PosInf y = y"
| "jsMul NegInf y = jsNeg y"

fun jsDiv :: "jsnum \<Rightarrow> jsnum \<Rightarrow> jsnum" where
  "jsDiv (Fin a) (Fin b) =
     (if b = 0 then (if a = 0 then NaN else if a > 0 then PosInf else NegInf)
      else fl (a / b))"
| "jsDiv NaN y = NaN"
| "jsDiv x NaN = NaN"
| "jsDiv (Fin a) y = Fin 0"
| "jsDiv x (Fin b) = signedInf x b"
| "jsDiv x y = NaN"

text \<open>
  \<open>Math.round\<close>: the nearest integer, a half going up. The integer is itself a binary64
  value, so nothing is rounded twice.
\<close>

fun mathRound :: "jsnum \<Rightarrow> jsnum" where
  "mathRound (Fin x) = Fin (of_int \<lfloor>x + 1 / 2\<rfloor>)"
| "mathRound x = x"

section \<open>Data fetched from the collaborators\<close>

text \<open>
  A fetch returns an array of rows, or on failure the sentinel \<open>{ error: message, data: null }\<close>.
  \<open>Absent\<close> stands for \<open>undefined\<close> and \<open>null\<close>, \<open>NotArray\<close> for any other value that is
  not an array and has no truthy \<open>error\<close> field.
\<close>

datatype 'a fetched = Absent | Sentinel string | NotArray | Rows "'a list"

fun usableRows :: "'a fetched \<Rightarrow> 'a list option" where
  "usableRows (Rows xs) = Some xs"
| "usableRows _ = None"

datatype error = TypeError

fun mapE :: "('a \<Rightarrow> error + 'b) \<Rightarrow> 'a list \<Rightarrow> error + 'b list" where
  "mapE f [] = Inr []"
| "mapE f (x # xs) =
     (case f x of
        Inl e \<Rightarrow> Inl e
      | Inr y \<Rightarrow> (case mapE f xs of Inl e \<Rightarrow> Inl e | Inr ys \<Rightarrow> Inr (y # ys)))"

text \<open>A JavaScript \<open>Set\<close> of strings, in insertion order.\<close>

definition setAdd :: "string \<Rightarrow> string list \<Rightarrow> string list" where
  "setAdd x xs = (if x \<in> set xs then xs else xs @ [x])"

section \<open>Negative-keyword normalizer\<close>

record negative_row =
  neg_keyword :: "string option"
  neg_matchType :: string
  neg_scope :: string
  neg_campaignName :: "string option"
  neg_sharedSetName :: "string option"

record existing_negative =
  en_keyword :: string
  en_matchType :: string
  en_scope :: string
  en_campaignName :: "string option"
  en_sharedSetName :: "string option"

record combined_negatives =
  existingNegatives :: "existing_negative list"
  negativeKeywordsSet :: "string list"

text \<open>One iteration of the \<open>forEach\<close> over the campaign-level rows.\<close>

definition addCampaignNegative :: "combined_negatives \<Rightarrow> negative_row \<Rightarrow> combined_negatives" where
  "addCampaignNegative acc neg =
     (case neg_keyword neg of
        None \<Rightarrow> acc
      | Some k \<Rightarrow>
          if k = [] then acc
          else \<lparr> existingNegatives = existingNegatives acc @
                   [\<lparr> en_keyword = k, en_matchType = neg_matchType neg, en_scope = ''campaign'',
                      en_campaignName = neg_campaignName neg, en_sharedSetName = None \<rparr>],
                 negativeKeywordsSet = setAdd (trim (toLowerCase k)) (negativeKeywordsSet acc) \<rparr>)"

text \<open>One iteration of the \<open>forEach\<close> over the account-level (shared set) rows.\<close>

definition addSharedSetNegative :: "combined_negatives \<Rightarrow> negative_row \<Rightarrow> combined_negatives" where
  "addSharedSetNegative acc neg =
     (case neg_keyword neg of
        None \<Rightarrow> acc
      | Some k \<Rightarrow>
          if k = [] then acc
          else \<lparr> existingNegatives = existingNegatives acc @
                   [\<lparr> en_keyword = k, en_matchType = neg_matchType neg, en_scope = ''account'',
                      en_campaignName = None, en_sharedSetName = neg_sharedSetName neg \<rparr>],
                 negativeKeywordsSet = setAdd (trim (toLowerCase k)) (negativeKeywordsSet acc) \<rparr>)"

definition combineNegativeKeywords ::
  "negative_row fetched \<Rightarrow> negative_row fetched \<Rightarrow> combined_negatives" where
  "combineNegativeKeywords campaignNegatives sharedSetNegatives =
     (let acc0 = \<lparr> existingNegatives = [], negativeKeywordsSet = [] \<rparr>;
          acc1 = (case usableRows campaignNegatives of
                    None \<Rightarrow> acc0
                  | Some rows \<Rightarrow> foldl addCampaignNegative acc0 rows);
          acc2 = (case usableRows sharedSetNegatives of
                    None \<Rightarrow> acc1
                  | Some rows \<Rightarrow> foldl addSharedSetNegative acc1 rows)
      in acc2)"

section \<open>Classification engine\<close>

definition WRONG_INTENT_WORDS :: "string list" where
  "WRONG_INTENT_WORDS =
     [''lawyer'', ''lawyers'', ''attorney'', ''attorneys'', ''near me'', ''legal advice'',
      ''free consultation'', ''pro bono'', ''lawsuit'', ''sue'', ''court'',
      ''template'', ''templates'', ''free'', ''sample'', ''example'', ''diy template'',
      ''word doc'', ''download'']"

definition HIGH_INTENT_WORDS :: "string list" where
  "HIGH_INTENT_WORDS =
     [''respond'', ''response'', ''letter'', ''dispute'', ''fight'', ''violation'',
      ''notice'', ''write'', ''help'', ''fine'']"

record search_term_row =
  st_searchTerm :: "string option"
  st_status :: string
  st_spend :: rat
  st_clicks :: int
  st_impressions :: int
  st_conversions :: rat
  st_ctr :: rat

record keyword_row =
  kw_keyword :: "string option"
  kw_matchType :: string
  kw_status :: string

datatype intent = high | medium

record opportunity =
  opp_searchTerm :: "string option"
  opp_clicks :: int
  opp_impressions :: int
  opp_spend :: rat
  opp_conversions :: rat
  opp_ctr :: rat
  opp_actualCpc :: jsnum
  opp_intentScore :: intent

record waste_term =
  wt_searchTerm :: "string option"
  wt_clicks :: int
  wt_spend :: rat
  wt_conversions :: rat
  wt_actualCpc :: jsnum
  wt_alreadyNegative :: bool

record covered_waste =
  cw_keyword :: "string option"
  cw_wastedSpend :: rat
  cw_note :: string

record analysis =
  totalSearchTerms :: nat
  confirmedGaps :: nat
  confirmedWaste :: nat
  totalWastedOnWrongIntent :: jsnum
  alreadyNegated :: nat

record classification_result =
  opportunities :: "opportunity list"
  wasteTerms :: "waste_term list"
  alreadyCovered :: "covered_waste list"
  stats :: analysis

text \<open>\<open>st.searchTerm || ''\<close>: a missing term reads as the empty string.\<close>

definition termOrEmpty :: "string option \<Rightarrow> string" where
  "termOrEmpty t = (case t of None \<Rightarrow> [] | Some s \<Rightarrow> s)"

definition addExistingKeyword :: "string list \<Rightarrow> keyword_row \<Rightarrow> string list" where
  "addExistingKeyword acc kw =
     (case kw_keyword kw of
        None \<Rightarrow> acc
      | Some k \<Rightarrow> if k = [] then acc else setAdd (trim (toLowerCase k)) acc)"

definition existingKeywords :: "keyword_row fetched \<Rightarrow> string list" where
  "existingKeywords keywordData =
     (case usableRows keywordData of None \<Rightarrow> [] | Some rows \<Rightarrow> foldl addExistingKeyword [] rows)"

definition hasWrongIntent :: "string \<Rightarrow> bool" where
  "hasWrongIntent term =
     (let lowerTerm = toLowerCase term
      in list_ex (\<lambda>word. includesStr lowerTerm (toLowerCase word)) WRONG_INTENT_WORDS)"

text \<open>
  \<open>scoreIntent\<close> and \<open>isAlreadyNegated\<close> call \<open>term.toLowerCase()\<close> on the row's own
  \<open>searchTerm\<close>, which raises a \<open>TypeError\<close> when the field is missing.
\<close>

definition scoreIntent :: "string option \<Rightarrow> error + intent" where
  "scoreIntent term =
     (case term of
        None \<Rightarrow> Inl TypeError
      | Some t \<Rightarrow>
          (let lowerTerm = toLowerCase t;
               matchCount = length (filter (\<lambda>word. includesStr lowerTerm (toLowerCase word)) HIGH_INTENT_WORDS)
           in Inr (if matchCount \<ge> 2 then high else medium)))"

definition isAlreadyNegated :: "string list \<Rightarrow> string option \<Rightarrow> error + bool" where
  "isAlreadyNegated negativeSet term =
     (case term of
        None \<Rightarrow> Inl TypeError
      | Some t \<Rightarrow>
          (let lowerTerm = trim (toLowerCase t)
           in if lowerTerm \<in> set negativeSet then Inr True
              else Inr (list_ex (\<lambda>negative. includesStr lowerTerm negative) negativeSet)))"

text \<open>\<open>st.clicks > 0 ? Math.round((st.spend / st.clicks) * 100) / 100 : 0\<close>\<close>

definition actualCpc :: "rat \<Rightarrow> int \<Rightarrow> jsnum" where
  "actualCpc spend clicks =
     (if clicks > 0
      then jsDiv (mathRound (jsMul (jsDiv (Fin spend) (Fin (of_int clicks))) (Fin 100))) (Fin 100)
      else Fin 0)"

definition isOpportunity :: "string list \<Rightarrow> search_term_row \<Rightarrow> bool" where
  "isOpportunity existing st =
     (let term = termOrEmpty (st_searchTerm st);
          clicks = st_clicks st;
          isExistingKeyword = (trim (toLowerCase term) \<in> set existing)
      in clicks \<ge> 1 \<and> \<not> hasWrongIntent term \<and> \<not> isExistingKeyword)"

definition toOpportunity :: "search_term_row \<Rightarrow> error + opportunity" where
  "toOpportunity st =
     (case scoreIntent (st_searchTerm st) of
        Inl e \<Rightarrow> Inl e
      | Inr score \<Rightarrow>
          Inr \<lparr> opp_searchTerm = st_searchTerm st, opp_clicks = st_clicks st,
                opp_impressions = st_impressions st, opp_spend = st_spend st,
                opp_conversions = st_conversions st, opp_ctr = st_ctr st,
                opp_actualCpc = actualCpc (st_spend st) (st_clicks st),
                opp_intentScore = score \<rparr>)"

definition isWasteCandidate :: "search_term_row \<Rightarrow> bool" where
  "isWasteCandidate st =
     (let term = termOrEmpty (st_searchTerm st);
          clicks = st_clicks st;
          conversions = st_conversions st;
          spend = st_spend st
      in clicks \<ge> 1 \<and> conversions = 0 \<and> spend > 2 \<and> hasWrongIntent term)"

definition toWasteTerm :: "string list \<Rightarrow> search_term_row \<Rightarrow> error + waste_term" where
  "toWasteTerm negativeSet st =
     (case isAlreadyNegated negativeSet (st_searchTerm st) of
        Inl e \<Rightarrow> Inl e
      | Inr neg \<Rightarrow>
          Inr \<lparr> wt_searchTerm = st_searchTerm st, wt_clicks = st_clicks st,
                wt_spend = st_spend st, wt_conversions = st_conversions st,
                wt_actualCpc = actualCpc (st_spend st) (st_clicks st),
                wt_alreadyNegative = neg \<rparr>)"

definition toCovered :: "waste_term \<Rightarrow> covered_waste" where
  "toCovered wt =
     \<lparr> cw_keyword = wt_searchTerm wt, cw_wastedSpend = wt_spend wt, cw_note = ''already negated'' \<rparr>"

definition emptyAnalysis :: analysis where
  "emptyAnalysis =
     \<lparr> totalSearchTerms = 0, confirmedGaps = 0, confirmedWaste = 0,
       totalWastedOnWrongIntent = Fin 0, alreadyNegated = 0 \<rparr>"

text \<open>
  \<open>Array.prototype.sort\<close> is stable; \<open>sort_key\<close> on the negated key is the stable sort in
  descending order of the key.
\<close>

definition analyzeSearchTermsForGaps ::
  "search_term_row fetched \<Rightarrow> keyword_row fetched \<Rightarrow> string list \<Rightarrow> error + classification_result" where
  "analyzeSearchTermsForGaps searchTermData keywordData negativeSet =
     (case usableRows searchTermData of
        None \<Rightarrow>
          Inr \<lparr> opportunities = [], wasteTerms = [], alreadyCovered = [], stats = emptyAnalysis \<rparr>
      | Some rows \<Rightarrow>
          (let existing = existingKeywords keywordData
           in case mapE toOpportunity (filter (isOpportunity existing) rows) of
                Inl e \<Rightarrow> Inl e
              | Inr opps \<Rightarrow>
                  (let opportunities = take 20 (sort_key (\<lambda>a. - opp_clicks a) opps)
                   in case mapE (toWasteTerm negativeSet) (filter isWasteCandidate rows) of
                        Inl e \<Rightarrow> Inl e
                      | Inr wts \<Rightarrow>
                          (let allWasteTerms = sort_key (\<lambda>a. - wt_spend a) wts;
                               wasteTerms = take 15 (filter (\<lambda>wt. \<not> wt_alreadyNegative wt) allWasteTerms);
                               alreadyCovered = map toCovered (filter wt_alreadyNegative allWasteTerms)
                           in Inr \<lparr> opportunities = opportunities,
                                    wasteTerms = wasteTerms,
                                    alreadyCovered = alreadyCovered,
                                    stats = \<lparr> totalSearchTerms = length rows,
                                              confirmedGaps = length opportunities,
                                              confirmedWaste = length wasteTerms,
                                              totalWastedOnWrongIntent =
                                                jsDiv (mathRound (jsMul
                                                  (foldl (\<lambda>sum wt. jsAdd sum (Fin (wt_spend wt))) (Fin 0) wasteTerms)
                                                  (Fin 100))) (Fin 100),
                                              alreadyNegated = length alreadyCovered \<rparr> \<rparr>))))"

section \<open>Job store\<close>

text \<open>
  A job record is \<open>{ status, result, error }\<close>. The in-process tier is the module-level
  \<open>Map\<close> \<open>jobStore\<close>; the durable tier is the table \<open>ad_suggestion_jobs\<close>, keyed by
  \<open>job_id\<close>. What the durable backend does on one call is an input of the model: the
  client may be unconfigured (\<open>getSupabaseClient\<close> returns \<open>null\<close>), and a configured
  call may store or answer, return an error object, or raise. The two time stamps of a row
  are left out; \<open>loadJob\<close> does not read them.
\<close>

record 'r job =
  job_status :: string
  job_result :: "'r option"
  job_error :: "string option"

record 'r store =
  jobStore :: "string \<rightharpoonup> 'r job"
  ad_suggestion_jobs :: "string \<rightharpoonup> 'r job"

datatype backend = NotConfigured | Configured

datatype backend_outcome = Done | ReturnedError string | Raised string

text \<open>\<open>data.error || null\<close>: an empty message is stored as \<open>null\<close>.\<close>

definition orNull :: "string option \<Rightarrow> string option" where
  "orNull e = (case e of None \<Rightarrow> None | Some m \<Rightarrow> if m = [] then None else Some m)"

definition saveJob :: "backend \<Rightarrow> backend_outcome \<Rightarrow> string \<Rightarrow> 'r job \<Rightarrow> 'r store \<Rightarrow> 'r store" where
  "saveJob supabase upsert jobId data st =
     (let st1 = st\<lparr> jobStore := (jobStore st)(jobId \<mapsto> data) \<rparr>
      in case supabase of
           NotConfigured \<Rightarrow> st1
         | Configured \<Rightarrow>
             (case upsert of
                Done \<Rightarrow>
                  st1\<lparr> ad_suggestion_jobs := (ad_suggestion_jobs st1)
                         (jobId \<mapsto> \<lparr> job_status = job_status data, job_result = job_result data,
                                     job_error = orNull (job_error data) \<rparr>) \<rparr>
              | ReturnedError m \<Rightarrow> st1
              | Raised m \<Rightarrow> st1))"

definition loadJob :: "backend \<Rightarrow> backend_outcome \<Rightarrow> string \<Rightarrow> 'r store \<Rightarrow> 'r job option" where
  "loadJob supabase select jobId st =
     (if jobId \<in> dom (jobStore st) then jobStore st jobId
      else case supabase of
             NotConfigured \<Rightarrow> None
           | Configured \<Rightarrow>
               (case select of
                  Done \<Rightarrow>
                    (case ad_suggestion_jobs st jobId of
                       None \<Rightarrow> None
                     | Some row \<Rightarrow>
                         Some \<lparr> job_status = job_status row, job_result = job_result row,
                                job_error = job_error row \<rparr>)
                | ReturnedError m \<Rightarrow> None
                | Raised m \<Rightarrow> None))"

section \<open>Client poller\<close>

text \<open>
  \<open>AdSuggestionsService\<close> as an event-driven machine. Each call of \<open>getSuggestions\<close> creates
  one submission: its \<open>result$\<close> subject (the values it has passed on, and whether it has
  completed), the pending POST, and, once \<open>startPolling\<close> has run, the interval timer with its
  \<open>attempts\<close> counter and the GET requests it has issued. \<open>pollingSubscription\<close> is the
  service field: the index of the submission whose interval it refers to.

  A subject that has completed ignores \<open>next\<close>. An unsubscribed interval no longer ticks.
  The events are what the environment does: the caller submits, the timer fires, an HTTP
  request answers or fails. An event that cannot occur in a state (a tick of an unsubscribed
  interval, an answer nobody waits for) leaves the state unchanged.

  The model follows the copy of the service that polls \<open>/api/dashboard/ad-suggestions\<close>
  and reads \<open>response.status\<close>; the older copy has the same tick and error branches.
  \<open>maxAttempts\<close> is a local constant of \<open>startPolling\<close> (120 in this copy of the
  service, 90 in the older one); here it is the first argument of the step function.
\<close>

record 'a ad_suggestions_data =
  performanceSummary :: string
  keywordSuggestions :: "'a list"
  negativeKeywordSuggestions :: "'a list"
  adCopySuggestions :: "'a list"
  generalRecommendations :: "'a list"
  data_error :: "string option"

datatype response_status = StatusProcessing | StatusComplete | StatusError | StatusOther

record 'a job_response =
  resp_status :: response_status
  resp_jobId :: "string option"
  resp_result :: "'a ad_suggestions_data option"
  resp_error :: "string option"
  resp_message :: "string option"

text \<open>An \<open>HttpErrorResponse\<close>: \<open>err.error?.error\<close> and \<open>err.message\<close>.\<close>

record http_error =
  err_body_error :: "string option"
  err_message :: "string option"

record 'a submission =
  emitted :: "'a ad_suggestions_data list"
  stopped :: bool
  postPending :: bool
  polledJobId :: "string option"
  attempts :: nat
  intervalActive :: bool
  getsIssued :: nat
  getsPending :: nat

record 'a service =
  submissions :: "'a submission list"
  pollingSubscription :: "nat option"

datatype 'a event =
    GetSuggestions
  | PostReply nat "'a job_response"
  | PostFailed nat http_error
  | Tick nat
  | PollReply nat "'a job_response"
  | PollFailed nat http_error

text \<open>\<open>a || b\<close> on strings: \<open>a\<close> when it is present and not empty.\<close>

definition truthy :: "string option \<Rightarrow> bool" where
  "truthy a = (case a of None \<Rightarrow> False | Some m \<Rightarrow> m \<noteq> [])"

definition orElse :: "string option \<Rightarrow> string \<Rightarrow> string" where
  "orElse a b = (case a of None \<Rightarrow> b | Some m \<Rightarrow> if m = [] then b else m)"

definition createEmptyResult :: "string \<Rightarrow> 'a ad_suggestions_data" where
  "createEmptyResult e =
     \<lparr> performanceSummary = [], keywordSuggestions = [], negativeKeywordSuggestions = [],
       adCopySuggestions = [], generalRecommendations = [], data_error = Some e \<rparr>"

definition timeoutMessage :: string where
  "timeoutMessage = ''Analysis timed out after 4 minutes. Please try again.''"

definition initService :: "'a service" where
  "initService = \<lparr> submissions = [], pollingSubscription = None \<rparr>"

definition newSubmission :: "'a submission" where
  "newSubmission =
     \<lparr> emitted = [], stopped = False, postPending = True, polledJobId = None, attempts = 0,
       intervalActive = False, getsIssued = 0, getsPending = 0 \<rparr>"

definition updSub :: "nat \<Rightarrow> ('a submission \<Rightarrow> 'a submission) \<Rightarrow> 'a service \<Rightarrow> 'a service" where
  "updSub n f s = s\<lparr> submissions := (submissions s)[n := f (submissions s ! n)] \<rparr>"

definition subjectNext :: "nat \<Rightarrow> 'a ad_suggestions_data \<Rightarrow> 'a service \<Rightarrow> 'a service" where
  "subjectNext n v = updSub n (\<lambda>c. if stopped c then c else c\<lparr> emitted := emitted c @ [v] \<rparr>)"

definition subjectComplete :: "nat \<Rightarrow> 'a service \<Rightarrow> 'a service" where
  "subjectComplete n = updSub n (\<lambda>c. c\<lparr> stopped := True \<rparr>)"

definition cancelPolling :: "'a service \<Rightarrow> 'a service" where
  "cancelPolling s =
     (case pollingSubscription s of
        None \<Rightarrow> s
      | Some p \<Rightarrow> (updSub p (\<lambda>c. c\<lparr> intervalActive := False \<rparr>) s)\<lparr> pollingSubscription := None \<rparr>)"

definition startPolling :: "nat \<Rightarrow> string \<Rightarrow> 'a service \<Rightarrow> 'a service" where
  "startPolling n jid s =
     (updSub n (\<lambda>c. c\<lparr> polledJobId := Some jid, attempts := 0, intervalActive := True \<rparr>) s)
       \<lparr> pollingSubscription := Some n \<rparr>"

definition getSuggestions :: "'a service \<Rightarrow> 'a service" where
  "getSuggestions s =
     (let s1 = cancelPolling s
      in s1\<lparr> submissions := submissions s1 @ [newSubmission] \<rparr>)"

text \<open>The subscriber of the POST, after \<open>catchError\<close>.\<close>

definition onPostResponse :: "nat \<Rightarrow> 'a job_response \<Rightarrow> 'a service \<Rightarrow> 'a service" where
  "onPostResponse n response s =
     (if resp_status response = StatusError \<and> \<not> truthy (resp_jobId response) then
        subjectComplete n
          (subjectNext n (createEmptyResult (orElse (resp_error response) ''Failed to start analysis'')) s)
      else case resp_jobId response of
             Some jid \<Rightarrow>
               if jid \<noteq> [] then startPolling n jid s
               else subjectComplete n (subjectNext n (createEmptyResult ''No job ID returned'') s)
           | None \<Rightarrow> subjectComplete n (subjectNext n (createEmptyResult ''No job ID returned'') s))"

definition postErrorResponse :: "http_error \<Rightarrow> 'a job_response" where
  "postErrorResponse err =
     \<lparr> resp_status = StatusError, resp_jobId = None, resp_result = None,
       resp_error = Some (orElse (err_body_error err) (orElse (err_message err) ''Failed to start analysis'')),
       resp_message = None \<rparr>"

text \<open>One firing of \<open>interval(2000)\<close> for submission \<open>n\<close>.\<close>

definition onTick :: "nat \<Rightarrow> nat \<Rightarrow> 'a service \<Rightarrow> 'a service" where
  "onTick maxAttempts n s =
     (let s1 = updSub n (\<lambda>c. c\<lparr> attempts := attempts c + 1 \<rparr>) s
      in if attempts (submissions s1 ! n) > maxAttempts then
           subjectComplete n (subjectNext n (createEmptyResult timeoutMessage) (cancelPolling s1))
         else updSub n (\<lambda>c. c\<lparr> getsIssued := getsIssued c + 1, getsPending := getsPending c + 1 \<rparr>) s1)"

definition onPollResponse :: "nat \<Rightarrow> 'a job_response \<Rightarrow> 'a service \<Rightarrow> 'a service" where
  "onPollResponse n response s =
     (if resp_status response = StatusProcessing then s
      else
        (let s1 = cancelPolling s;
             s2 = (if resp_status response = StatusError then
                     subjectNext n (createEmptyResult (orElse (resp_error response) ''Analysis failed'')) s1
                   else case resp_result response of
                          Some result \<Rightarrow>
                            if resp_status response = StatusComplete then subjectNext n result s1
                            else subjectNext n (createEmptyResult ''Unexpected response format'') s1
                        | None \<Rightarrow> subjectNext n (createEmptyResult ''Unexpected response format'') s1)
         in subjectComplete n s2))"

definition onPollError :: "nat \<Rightarrow> http_error \<Rightarrow> 'a service \<Rightarrow> 'a service" where
  "onPollError n err s =
     (let s1 = cancelPolling s;
          errorMsg = orElse (err_body_error err) (orElse (err_message err) ''Polling failed'')
      in subjectComplete n (subjectNext n (createEmptyResult errorMsg) s1))"

definition answered :: "nat \<Rightarrow> 'a service \<Rightarrow> 'a service" where
  "answered n = updSub n (\<lambda>c. c\<lparr> getsPending := getsPending c - 1 \<rparr>)"

fun step :: "nat \<Rightarrow> 'a event \<Rightarrow> 'a service \<Rightarrow> 'a service" where
  "step maxAttempts GetSuggestions s = getSuggestions s"
| "step maxAttempts (PostReply n response) s =
     (if n < length (submissions s) \<and> postPending (submissions s ! n)
      then onPostResponse n response (updSub n (\<lambda>c. c\<lparr> postPending := False \<rparr>) s)
      else s)"
| "step maxAttempts (PostFailed n err) s =
     (if n < length (submissions s) \<and> postPending (submissions s ! n)
      then onPostResponse n (postErrorResponse err) (updSub n (\<lambda>c. c\<lparr> postPending := False \<rparr>) s)
      else s)"
| "step maxAttempts (Tick n) s =
     (if n < length (submissions s) \<and> intervalActive (submissions s ! n)
      then onTick maxAttempts n s
      else s)"
| "step maxAttempts (PollReply n response) s =
     (if n < length (submissions s) \<and> getsPending (submissions s ! n) > 0
      then onPollResponse n response (answered n s)
      else s)"
| "step maxAttempts (PollFailed n err) s =
     (if n < length (submissions s) \<and> getsPending (submissions s ! n) > 0
      then onPollError n err (answered n s)
      else s)"

fun run :: "nat \<Rightarrow> 'a event list \<Rightarrow> 'a service \<Rightarrow> 'a service" where
  "run maxAttempts [] s = s"
| "run maxAttempts (e # es) s = run maxAttempts es (step maxAttempts e s)"

text \<open>
  The bodies the server's handler answers with: 202 with the job id on a submission; on a
  poll \<open>processing\<close>, \<open>complete\<close> with the result, or \<open>error\<close> with the message.
\<close>

definition jobAccepted :: "string \<Rightarrow> 'a job_response" where
  "jobAccepted jid =
     \<lparr> resp_status = StatusProcessing, resp_jobId = Some jid, resp_result = None,
       resp_error = None, resp_message = Some ''Analysis started.'' \<rparr>"


definition jobComplete :: "'a ad_suggestions_data \<Rightarrow> 'a job_response" where
  "jobComplete res =
     \<lparr> resp_status = StatusComplete, resp_jobId = None, resp_result = Some res,
       resp_error = None, resp_message = None \<rparr>"


section \<open>Example inputs\<close>

definition attorneyRow :: search_term_row where
  "attorneyRow =
     \<lparr> st_searchTerm = Some ''hoa attorney help'', st_status = ''NONE'', st_spend = 5,
       st_clicks = 3, st_impressions = 10, st_conversions = 0, st_ctr = 30 \<rparr>"

definition lawyerRow :: search_term_row where
  "lawyerRow =
     \<lparr> st_searchTerm = Some ''hoa lawyer cost'', st_status = ''NONE'', st_spend = 7,
       st_clicks = 2, st_impressions = 10, st_conversions = 0, st_ctr = 20 \<rparr>"

definition letterRow :: search_term_row where
  "letterRow =
     \<lparr> st_searchTerm = Some ''diy hoa response letter'', st_status = ''NONE'', st_spend = 4,
       st_clicks = 5, st_impressions = 10, st_conversions = 1, st_ctr = 50 \<rparr>"

definition exampleResult :: classification_result where
  "exampleResult =
     \<lparr> opportunities =
         [\<lparr> opp_searchTerm = Some ''diy hoa response letter'', opp_clicks = 5,
            opp_impressions = 10, opp_spend = 4, opp_conversions = 1, opp_ctr = 50,
            opp_actualCpc = Fin (3602879701896397 / 4503599627370496), opp_intentScore = high \<rparr>],
       wasteTerms =
         [\<lparr> wt_searchTerm = Some ''hoa lawyer cost'', wt_clicks = 2, wt_spend = 7,
            wt_conversions = 0, wt_actualCpc = Fin (7 / 2), wt_alreadyNegative = False \<rparr>],
       alreadyCovered =
         [\<lparr> cw_keyword = Some ''hoa attorney help'', cw_wastedSpend = 5,
            cw_note = ''already negated'' \<rparr>],
       stats =
         \<lparr> totalSearchTerms = 3, confirmedGaps = 1, confirmedWaste = 1,
           totalWastedOnWrongIntent = Fin 7, alreadyNegated = 1 \<rparr> \<rparr>"

definition wasteRow :: "string \<Rightarrow> rat \<Rightarrow> search_term_row" where
  "wasteRow t s =
     \<lparr> st_searchTerm = Some t, st_status = ''NONE'', st_spend = s, st_clicks = 1,
       st_impressions = 10, st_conversions = 0, st_ctr = 10 \<rparr>"

definition sixteenWasteRows :: "search_term_row list" where
  "sixteenWasteRows =
     [wasteRow ''lawyer a'' 20, wasteRow ''lawyer b'' 19, wasteRow ''lawyer c'' 18,
      wasteRow ''lawyer d'' 17, wasteRow ''lawyer e'' 16, wasteRow ''lawyer f'' 15,
      wasteRow ''lawyer g'' 14, wasteRow ''lawyer h'' 13, wasteRow ''lawyer i'' 12,
      wasteRow ''lawyer j'' 11, wasteRow ''lawyer k'' 10, wasteRow ''lawyer l'' 9,
      wasteRow ''lawyer m'' 8, wasteRow ''lawyer n'' 7, wasteRow ''lawyer o'' 6,
      wasteRow ''lawyer p'' 5]"

definition centsRow :: search_term_row where
  "centsRow =
     \<lparr> st_searchTerm = Some ''hoa fine letter'', st_status = ''NONE'', st_spend = 1, st_clicks = 3,
       st_impressions = 10, st_conversions = 0, st_ctr = 30 \<rparr>"

definition campaignNegativeRows :: "negative_row list" where
  "campaignNegativeRows =
     [\<lparr> neg_keyword = Some '' Attorney '', neg_matchType = ''PHRASE'', neg_scope = ''campaign'',
        neg_campaignName = Some ''Main'', neg_sharedSetName = None \<rparr>,
      \<lparr> neg_keyword = Some [], neg_matchType = ''UNKNOWN'', neg_scope = ''campaign'',
        neg_campaignName = Some ''Main'', neg_sharedSetName = None \<rparr>]"

definition sharedNegativeRows :: "negative_row list" where
  "sharedNegativeRows =
     [\<lparr> neg_keyword = None, neg_matchType = ''UNKNOWN'', neg_scope = ''account'',
        neg_campaignName = None, neg_sharedSetName = Some ''Shared'' \<rparr>,
      \<lparr> neg_keyword = Some ''Free Template'', neg_matchType = ''BROAD'', neg_scope = ''account'',
        neg_campaignName = None, neg_sharedSetName = Some ''Shared'' \<rparr>]"

definition sampleResult :: "unit ad_suggestions_data" where
  "sampleResult =
     \<lparr> performanceSummary = ''Spend is concentrated on two campaigns.'', keywordSuggestions = [()],
       negativeKeywordSuggestions = [], adCopySuggestions = [], generalRecommendations = [()],
       data_error = None \<rparr>"

section \<open>Reachable states of the service\<close>

text \<open>
  What holds in every state the service reaches from its initial state: the current poll is
  running and has emitted nothing, a live subject has emitted nothing, a submission whose
  POST is pending has not started, and the polls issued are the attempts capped at the bound.
\<close>

definition serviceInvariant :: "nat \<Rightarrow> 'a service \<Rightarrow> bool" where
  "serviceInvariant maxAttempts s =
     ((\<forall>p. pollingSubscription s = Some p \<longrightarrow>
          p < length (submissions s) \<and> \<not> postPending (submissions s ! p)
          \<and> intervalActive (submissions s ! p) \<and> \<not> stopped (submissions s ! p)
          \<and> attempts (submissions s ! p) \<le> maxAttempts)
      \<and> (\<forall>i<length (submissions s).
            (\<not> stopped (submissions s ! i) \<longrightarrow> emitted (submissions s ! i) = [])
            \<and> (postPending (submissions s ! i) \<longrightarrow>
                 \<not> stopped (submissions s ! i) \<and> \<not> intervalActive (submissions s ! i)
                 \<and> attempts (submissions s ! i) = 0 \<and> getsPending (submissions s ! i) = 0)
            \<and> getsIssued (submissions s ! i) = min (attempts (submissions s ! i)) maxAttempts))"

section \<open>Auxiliary facts\<close>

lemma mapE_Inr_set2:
  "mapE f xs = Inr ys \<Longrightarrow> y \<in> set ys \<Longrightarrow> \<exists>x\<in>set xs. f x = Inr y"
  by (induction xs arbitrary: ys) (auto split: sum.splits)

lemma mapE_Inr_set1:
  "mapE f xs = Inr ys \<Longrightarrow> x \<in> set xs \<Longrightarrow> \<exists>y\<in>set ys. f x = Inr y"
  by (induction xs arbitrary: ys) (auto split: sum.splits)

lemma mapE_Inr_map:
  "mapE f xs = Inr ys \<Longrightarrow> (\<And>x y. x \<in> set xs \<Longrightarrow> f x = Inr y \<Longrightarrow> g y = h x) \<Longrightarrow> map g ys = map h xs"
  by (induction xs arbitrary: ys) (auto split: sum.splits)

lemma mapE_Inr_filter_length:
  assumes "mapE f xs = Inr ys" and "\<And>x y. x \<in> set xs \<Longrightarrow> f x = Inr y \<Longrightarrow> P y = Q x"
  shows "length (filter P ys) = length (filter Q xs)"
  using assms
proof (induction xs arbitrary: ys)
  case Nil
  then show ?case by simp
next
  case (Cons a xs)
  from Cons.prems(1) obtain y ys' where y: "f a = Inr y" "mapE f xs = Inr ys'" "ys = y # ys'"
    by (auto split: sum.splits)
  have "P y = Q a"
    using Cons.prems(2)[of a y] y(1) by simp
  moreover have "length (filter P ys') = length (filter Q xs)"
    using Cons.IH[OF y(2)] Cons.prems(2) by simp
  ultimately show ?case
    by (simp add: y(3))
qed

lemma mapE_total:
  assumes "\<And>x. x \<in> set xs \<Longrightarrow> \<exists>y. f x = Inr y"
  shows "\<exists>ys. mapE f xs = Inr ys"
  using assms
proof (induction xs)
  case Nil
  then show ?case by simp
next
  case (Cons a xs)
  from Cons.prems[of a] obtain y where y: "f a = Inr y" by auto
  from Cons.IH Cons.prems obtain ys where "mapE f xs = Inr ys" by auto
  with y show ?case by simp
qed

lemma analyze_RowsE:
  assumes "analyzeSearchTermsForGaps (Rows rows) kws negs = Inr r"
  obtains opps wts where
    "mapE toOpportunity (filter (isOpportunity (existingKeywords kws)) rows) = Inr opps"
    "mapE (toWasteTerm negs) (filter isWasteCandidate rows) = Inr wts"
    "opportunities r = take 20 (sort_key (\<lambda>a. - opp_clicks a) opps)"
    "wasteTerms r = take 15 (filter (\<lambda>wt. \<not> wt_alreadyNegative wt) (sort_key (\<lambda>a. - wt_spend a) wts))"
    "alreadyCovered r = map toCovered (filter wt_alreadyNegative (sort_key (\<lambda>a. - wt_spend a) wts))"
  using assms unfolding analyzeSearchTermsForGaps_def
  by (auto simp: Let_def split: sum.splits)

lemma analyze_not_Rows:
  assumes "analyzeSearchTermsForGaps sts kws negs = Inr r" and "\<forall>rows. sts \<noteq> Rows rows"
  shows "opportunities r = [] \<and> wasteTerms r = [] \<and> alreadyCovered r = []"
  using assms by (cases sts) (auto simp: analyzeSearchTermsForGaps_def)

lemma toOpportunity_Inr:
  assumes "toOpportunity st = Inr opp"
  shows "\<exists>t. st_searchTerm st = Some t \<and> opp_searchTerm opp = Some t"
    and "opp_clicks opp = st_clicks st" and "opp_spend opp = st_spend st"
    and "opp_impressions opp = st_impressions st" and "opp_conversions opp = st_conversions st"
    and "opp_ctr opp = st_ctr st"
    and "opp_actualCpc opp = actualCpc (st_spend st) (st_clicks st)"
  using assms unfolding toOpportunity_def scoreIntent_def
  by (auto split: sum.splits option.splits)

lemma toWasteTerm_Inr:
  assumes "toWasteTerm negs st = Inr wt"
  shows "\<exists>t. st_searchTerm st = Some t \<and> wt_searchTerm wt = Some t
            \<and> isAlreadyNegated negs (Some t) = Inr (wt_alreadyNegative wt)"
    and "wt_spend wt = st_spend st" and "wt_clicks wt = st_clicks st"
  using assms unfolding toWasteTerm_def isAlreadyNegated_def
  by (auto split: sum.splits option.splits if_splits)

lemma opportunity_member:
  assumes "analyzeSearchTermsForGaps (Rows rows) kws negs = Inr r"
    and "opp \<in> set (opportunities r)"
  shows "\<exists>st\<in>set rows. isOpportunity (existingKeywords kws) st \<and> toOpportunity st = Inr opp"
proof -
  from assms(1) obtain opps where
      m: "mapE toOpportunity (filter (isOpportunity (existingKeywords kws)) rows) = Inr opps"
      and o: "opportunities r = take 20 (sort_key (\<lambda>a. - opp_clicks a) opps)"
    by (rule analyze_RowsE)
  from assms(2) o have "opp \<in> set opps"
    by (auto dest: in_set_takeD)
  from mapE_Inr_set2[OF m this] show ?thesis
    by auto
qed

lemma wasteTerm_member:
  assumes "analyzeSearchTermsForGaps (Rows rows) kws negs = Inr r"
    and "wt \<in> set (wasteTerms r)"
  shows "\<not> wt_alreadyNegative wt \<and> (\<exists>st\<in>set rows. isWasteCandidate st \<and> toWasteTerm negs st = Inr wt)"
proof -
  from assms(1) obtain wts where
      m: "mapE (toWasteTerm negs) (filter isWasteCandidate rows) = Inr wts"
      and w: "wasteTerms r = take 15 (filter (\<lambda>wt. \<not> wt_alreadyNegative wt) (sort_key (\<lambda>a. - wt_spend a) wts))"
    by (rule analyze_RowsE)
  from assms(2) w have n: "\<not> wt_alreadyNegative wt" and "wt \<in> set wts"
    by (auto dest: in_set_takeD)
  from mapE_Inr_set2[OF m this(2)] n show ?thesis
    by auto
qed

lemma alreadyCovered_member:
  assumes "analyzeSearchTermsForGaps (Rows rows) kws negs = Inr r"
    and "cw \<in> set (alreadyCovered r)"
  shows "\<exists>wt. cw = toCovered wt \<and> wt_alreadyNegative wt
           \<and> (\<exists>st\<in>set rows. isWasteCandidate st \<and> toWasteTerm negs st = Inr wt)"
proof -
  from assms(1) obtain wts where
      m: "mapE (toWasteTerm negs) (filter isWasteCandidate rows) = Inr wts"
      and c: "alreadyCovered r = map toCovered (filter wt_alreadyNegative (sort_key (\<lambda>a. - wt_spend a) wts))"
    by (rule analyze_RowsE)
  from assms(2) c obtain wt where wt: "cw = toCovered wt" "wt_alreadyNegative wt" and "wt \<in> set wts"
    by auto
  from mapE_Inr_set2[OF m this(3)] wt show ?thesis
    by auto
qed

lemma opportunity_term:
  assumes "analyzeSearchTermsForGaps sts kws negs = Inr r" and "opp \<in> set (opportunities r)"
  shows "\<exists>t. opp_searchTerm opp = Some t \<and> \<not> hasWrongIntent t"
proof (cases sts)
  case (Rows rows)
  with assms obtain st where "isOpportunity (existingKeywords kws) st" "toOpportunity st = Inr opp"
    by (auto dest: opportunity_member)
  then show ?thesis
    using toOpportunity_Inr(1)[of st opp]
    by (auto simp: isOpportunity_def Let_def termOrEmpty_def)
qed (use assms analyze_not_Rows[OF assms(1)] in auto)

lemma wasteTerm_term:
  assumes "analyzeSearchTermsForGaps sts kws negs = Inr r" and "wt \<in> set (wasteTerms r)"
  shows "\<exists>t. wt_searchTerm wt = Some t \<and> hasWrongIntent t \<and> isAlreadyNegated negs (Some t) = Inr False"
proof (cases sts)
  case (Rows rows)
  with assms obtain st where "\<not> wt_alreadyNegative wt" "isWasteCandidate st" "toWasteTerm negs st = Inr wt"
    by (auto dest: wasteTerm_member)
  then show ?thesis
    using toWasteTerm_Inr(1)[of negs st wt]
    by (auto simp: isWasteCandidate_def Let_def termOrEmpty_def)
qed (use assms analyze_not_Rows[OF assms(1)] in auto)

lemma alreadyCovered_term:
  assumes "analyzeSearchTermsForGaps sts kws negs = Inr r" and "cw \<in> set (alreadyCovered r)"
  shows "\<exists>t. cw_keyword cw = Some t \<and> hasWrongIntent t \<and> isAlreadyNegated negs (Some t) = Inr True"
proof (cases sts)
  case (Rows rows)
  with assms obtain wt st where "cw = toCovered wt" "wt_alreadyNegative wt" "isWasteCandidate st"
      "toWasteTerm negs st = Inr wt"
    by (auto dest: alreadyCovered_member)
  then show ?thesis
    using toWasteTerm_Inr(1)[of negs st wt]
    by (auto simp: isWasteCandidate_def Let_def termOrEmpty_def toCovered_def)
qed (use assms analyze_not_Rows[OF assms(1)] in auto)

lemma sorted_take_bound:
  assumes "sorted (map f xs)" "x \<in> set xs" "x \<notin> set (take n xs)" "y \<in> set (take n xs)"
  shows "f y \<le> f x"
proof -
  have "xs = take n xs @ drop n xs" by simp
  with assms(2,3) have "x \<in> set (drop n xs)"
    by (metis Un_iff set_append)
  moreover from assms(1) have "sorted (map f (take n xs) @ map f (drop n xs))"
    by (simp flip: map_append)
  ultimately show ?thesis
    using assms(4) by (auto simp: sorted_append)
qed

lemma startsWith_iff: "startsWith s t \<longleftrightarrow> (\<exists>q. s = t @ q)"
  by (induction s t rule: startsWith.induct) auto

lemma includesStr_iff: "includesStr s t \<longleftrightarrow> (\<exists>p q. s = p @ t @ q)"
proof (induction s)
  case Nil
  then show ?case by simp
next
  case (Cons c s)
  show ?case
  proof
    assume "includesStr (c # s) t"
    then consider "startsWith (c # s) t" | "includesStr s t" by auto
    then show "\<exists>p q. c # s = p @ t @ q"
    proof cases
      case 1
      then obtain q where "c # s = [] @ t @ q" by (auto simp: startsWith_iff)
      then show ?thesis by blast
    next
      case 2
      with Cons.IH obtain p q where "s = p @ t @ q" by blast
      then have "c # s = (c # p) @ t @ q" by simp
      then show ?thesis by blast
    qed
  next
    assume "\<exists>p q. c # s = p @ t @ q"
    then obtain p q where pq: "c # s = p @ t @ q" by blast
    show "includesStr (c # s) t"
    proof (cases p)
      case Nil
      with pq have "startsWith (c # s) t" by (auto simp: startsWith_iff)
      then show ?thesis by simp
    next
      case (Cons d p')
      with pq have "s = p' @ t @ q" by simp
      with Cons.IH have "includesStr s t" by blast
      then show ?thesis by simp
    qed
  qed
qed

lemma existingKeywords_foldl:
  "set (foldl addExistingKeyword acc ks)
     = set acc \<union> {trim (toLowerCase k) |k. \<exists>kw\<in>set ks. kw_keyword kw = Some k \<and> k \<noteq> []}"
  by (induction ks arbitrary: acc)
     (auto simp: addExistingKeyword_def setAdd_def split: option.splits)

lemma existingKeywords_Rows:
  "set (existingKeywords (Rows ks))
     = {trim (toLowerCase k) |k. \<exists>kw\<in>set ks. kw_keyword kw = Some k \<and> k \<noteq> []}"
  by (simp add: existingKeywords_def existingKeywords_foldl)

text \<open>The engine returns whenever every row has its \<open>searchTerm\<close>.\<close>

lemma analyze_total:
  assumes "\<forall>st\<in>set rows. st_searchTerm st \<noteq> None"
  shows "\<exists>r. analyzeSearchTermsForGaps (Rows rows) kws negs = Inr r"
proof -
  have "\<exists>opps. mapE toOpportunity (filter (isOpportunity (existingKeywords kws)) rows) = Inr opps"
    using assms by (intro mapE_total) (auto simp: toOpportunity_def scoreIntent_def Let_def)
  moreover have "\<exists>wts. mapE (toWasteTerm negs) (filter isWasteCandidate rows) = Inr wts"
    using assms by (intro mapE_total) (auto simp: toWasteTerm_def isAlreadyNegated_def Let_def)
  ultimately show ?thesis
    by (auto simp: analyzeSearchTermsForGaps_def Let_def)
qed

text \<open>An empty sum of spend rounds to zero.\<close>

lemma fl_zero: "fl 0 = Fin 0"
  by (simp add: fl_def)

lemma cents_of_zero: "jsDiv (mathRound (fl 0)) (Fin 100) = Fin 0"
proof -
  have "\<lfloor>0 + (1::rat) / 2\<rfloor> = 0"
    by (simp add: floor_eq_iff)
  then show ?thesis
    by (simp add: fl_zero)
qed

lemma existingKeywords_set:
  "set (existingKeywords kws)
     = {trim (toLowerCase k) |k.
          \<exists>kw\<in>set (case usableRows kws of None \<Rightarrow> [] | Some ks \<Rightarrow> ks).
            kw_keyword kw = Some k \<and> k \<noteq> []}"
  by (cases kws) (simp_all add: existingKeywords_def existingKeywords_foldl)

lemma example_classification:
  "analyzeSearchTermsForGaps (Rows [attorneyRow, lawyerRow, letterRow]) (Rows []) [''attorney'']
     = Inr exampleResult"
  by code_simp

section \<open>Absent search-term data\<close>

text \<open>
  C9. When the search-term input is missing, is the fetch-failure sentinel, is some other
  value that is not an array, or is the empty array, the engine raises nothing and returns
  the empty classification: no opportunities, no waste terms, nothing already covered, and
  every count zero.
\<close>

theorem analyze_absent_input_empty:
  "analyzeSearchTermsForGaps Absent kws negs =
     Inr \<lparr> opportunities = [], wasteTerms = [], alreadyCovered = [], stats = emptyAnalysis \<rparr>
   \<and> analyzeSearchTermsForGaps (Sentinel msg) kws negs =
     Inr \<lparr> opportunities = [], wasteTerms = [], alreadyCovered = [], stats = emptyAnalysis \<rparr>
   \<and> analyzeSearchTermsForGaps NotArray kws negs =
     Inr \<lparr> opportunities = [], wasteTerms = [], alreadyCovered = [], stats = emptyAnalysis \<rparr>
   \<and> analyzeSearchTermsForGaps (Rows []) kws negs =
     Inr \<lparr> opportunities = [], wasteTerms = [], alreadyCovered = [], stats = emptyAnalysis \<rparr>
   \<and> totalSearchTerms emptyAnalysis = 0 \<and> confirmedGaps emptyAnalysis = 0
   \<and> confirmedWaste emptyAnalysis = 0 \<and> totalWastedOnWrongIntent emptyAnalysis = Fin 0
   \<and> alreadyNegated emptyAnalysis = 0"
  by (simp add: analyzeSearchTermsForGaps_def emptyAnalysis_def cents_of_zero)

section \<open>The three lists are disjoint\<close>

text \<open>
  C2. Whenever the engine returns, no search term occurs in more than one of
  \<open>opportunities\<close>, \<open>wasteTerms\<close> and \<open>alreadyCovered\<close>: an opportunity has no wrong-intent
  word, the other two lists hold only wrong-intent terms, and the negation test, which
  depends on the term alone, separates those two.
\<close>

theorem classification_lists_disjoint:
  assumes "analyzeSearchTermsForGaps sts kws negs = Inr r"
  shows "opp_searchTerm ` set (opportunities r) \<inter> wt_searchTerm ` set (wasteTerms r) = {}
       \<and> opp_searchTerm ` set (opportunities r) \<inter> cw_keyword ` set (alreadyCovered r) = {}
       \<and> wt_searchTerm ` set (wasteTerms r) \<inter> cw_keyword ` set (alreadyCovered r) = {}"
proof (intro conjI)
  show "opp_searchTerm ` set (opportunities r) \<inter> wt_searchTerm ` set (wasteTerms r) = {}"
    using opportunity_term[OF assms] wasteTerm_term[OF assms] by fastforce
  show "opp_searchTerm ` set (opportunities r) \<inter> cw_keyword ` set (alreadyCovered r) = {}"
    using opportunity_term[OF assms] alreadyCovered_term[OF assms] by fastforce
  show "wt_searchTerm ` set (wasteTerms r) \<inter> cw_keyword ` set (alreadyCovered r) = {}"
    using wasteTerm_term[OF assms] alreadyCovered_term[OF assms] by fastforce
qed

text \<open>Witness for C2: three rows, one landing in each list.\<close>

theorem classification_lists_disjoint_witness:
  "analyzeSearchTermsForGaps (Rows [attorneyRow, lawyerRow, letterRow]) (Rows []) [''attorney'']
     = Inr exampleResult
   \<and> opp_searchTerm ` set (opportunities exampleResult) = {Some ''diy hoa response letter''}
   \<and> wt_searchTerm ` set (wasteTerms exampleResult) = {Some ''hoa lawyer cost''}
   \<and> cw_keyword ` set (alreadyCovered exampleResult) = {Some ''hoa attorney help''}
   \<and> opp_searchTerm ` set (opportunities exampleResult) \<inter> wt_searchTerm ` set (wasteTerms exampleResult) = {}
   \<and> opp_searchTerm ` set (opportunities exampleResult) \<inter> cw_keyword ` set (alreadyCovered exampleResult) = {}
   \<and> wt_searchTerm ` set (wasteTerms exampleResult) \<inter> cw_keyword ` set (alreadyCovered exampleResult) = {}"
proof -
  have sets: "opp_searchTerm ` set (opportunities exampleResult) = {Some ''diy hoa response letter''}"
    "wt_searchTerm ` set (wasteTerms exampleResult) = {Some ''hoa lawyer cost''}"
    "cw_keyword ` set (alreadyCovered exampleResult) = {Some ''hoa attorney help''}"
    by (simp_all add: exampleResult_def)
  from classification_lists_disjoint[OF example_classification] example_classification sets
  show ?thesis by blast
qed

section \<open>Where a waste candidate lands\<close>

text \<open>
  C1, as stated, fails: \<open>wasteTerms\<close> keeps the first 15 entries only. With sixteen
  wrong-intent rows, none negated, the one with the lowest spend is in neither list.
\<close>

theorem waste_candidate_dropped_counterexample:
  "wasteRow ''lawyer p'' 5 \<in> set sixteenWasteRows
   \<and> st_searchTerm (wasteRow ''lawyer p'' 5) = Some ''lawyer p''
   \<and> hasWrongIntent ''lawyer p''
   \<and> st_clicks (wasteRow ''lawyer p'' 5) \<ge> 1
   \<and> st_conversions (wasteRow ''lawyer p'' 5) = 0
   \<and> st_spend (wasteRow ''lawyer p'' 5) > 2
   \<and> \<not> isl (analyzeSearchTermsForGaps (Rows sixteenWasteRows) (Rows []) [])
   \<and> map wt_searchTerm (wasteTerms (projr (analyzeSearchTermsForGaps (Rows sixteenWasteRows) (Rows []) [])))
       = [Some ''lawyer a'', Some ''lawyer b'', Some ''lawyer c'', Some ''lawyer d'', Some ''lawyer e'',
          Some ''lawyer f'', Some ''lawyer g'', Some ''lawyer h'', Some ''lawyer i'', Some ''lawyer j'',
          Some ''lawyer k'', Some ''lawyer l'', Some ''lawyer m'', Some ''lawyer n'', Some ''lawyer o'']
   \<and> alreadyCovered (projr (analyzeSearchTermsForGaps (Rows sixteenWasteRows) (Rows []) [])) = []"
  by code_simp

text \<open>
  C1, amended. A wrong-intent term with at least one click, no conversion and a spend above
  2.00 is never in both lists. If it is negated it is in \<open>alreadyCovered\<close>. If it is not, it
  is in \<open>wasteTerms\<close> unless the list is full: then \<open>wasteTerms\<close> has 15 entries and each of
  them has at least its spend. When at most 15 candidates are not negated, the term is in
  exactly one of the two lists.
\<close>

theorem waste_candidate_placement:
  assumes r: "analyzeSearchTermsForGaps (Rows rows) kws negs = Inr r"
    and st: "st \<in> set rows" "st_searchTerm st = Some t" "hasWrongIntent t"
      "st_clicks st \<ge> 1" "st_conversions st = 0" "st_spend st > 2"
  shows "\<not> (Some t \<in> wt_searchTerm ` set (wasteTerms r) \<and> Some t \<in> cw_keyword ` set (alreadyCovered r))
     \<and> (isAlreadyNegated negs (Some t) = Inr True \<longrightarrow> Some t \<in> cw_keyword ` set (alreadyCovered r))
     \<and> (isAlreadyNegated negs (Some t) = Inr False \<longrightarrow>
           Some t \<in> wt_searchTerm ` set (wasteTerms r)
           \<or> (length (wasteTerms r) = 15 \<and> (\<forall>wt\<in>set (wasteTerms r). st_spend st \<le> wt_spend wt)))
     \<and> (length (filter (\<lambda>s. isWasteCandidate s \<and> isAlreadyNegated negs (st_searchTerm s) = Inr False) rows) \<le> 15 \<longrightarrow>
           (Some t \<in> wt_searchTerm ` set (wasteTerms r)) \<noteq> (Some t \<in> cw_keyword ` set (alreadyCovered r)))"
proof -
  from r obtain wts where
      m: "mapE (toWasteTerm negs) (filter isWasteCandidate rows) = Inr wts"
      and w: "wasteTerms r = take 15 (filter (\<lambda>wt. \<not> wt_alreadyNegative wt) (sort_key (\<lambda>a. - wt_spend a) wts))"
      and c: "alreadyCovered r = map toCovered (filter wt_alreadyNegative (sort_key (\<lambda>a. - wt_spend a) wts))"
    by (rule analyze_RowsE)
  define W where "W = filter (\<lambda>wt. \<not> wt_alreadyNegative wt) (sort_key (\<lambda>a. - wt_spend a) wts)"
  have cand: "st \<in> set (filter isWasteCandidate rows)"
    using st by (simp add: isWasteCandidate_def termOrEmpty_def)
  from mapE_Inr_set1[OF m cand] obtain wt0 where wt0: "wt0 \<in> set wts" "toWasteTerm negs st = Inr wt0"
    by blast
  from toWasteTerm_Inr[OF wt0(2)] st(2)
  have t0: "wt_searchTerm wt0 = Some t" "isAlreadyNegated negs (Some t) = Inr (wt_alreadyNegative wt0)"
      "wt_spend wt0 = st_spend st"
    by auto
  have both: "\<not> (Some t \<in> wt_searchTerm ` set (wasteTerms r) \<and> Some t \<in> cw_keyword ` set (alreadyCovered r))"
    using wasteTerm_term[OF r] alreadyCovered_term[OF r] by fastforce
  have neg: "Some t \<in> cw_keyword ` set (alreadyCovered r)" if "isAlreadyNegated negs (Some t) = Inr True"
  proof -
    from that t0(2) have "wt_alreadyNegative wt0" by simp
    with wt0(1) have "toCovered wt0 \<in> set (alreadyCovered r)"
      by (simp add: c)
    moreover have "cw_keyword (toCovered wt0) = Some t"
      by (simp add: toCovered_def t0(1))
    ultimately show ?thesis by force
  qed
  have inW: "wt0 \<in> set W" if "isAlreadyNegated negs (Some t) = Inr False"
    using that t0(2) wt0(1) by (simp add: W_def)
  have srt: "sorted (map (\<lambda>a. - wt_spend a) W)"
    unfolding W_def by (intro sorted_filter sorted_sort_key)
  have notneg: "Some t \<in> wt_searchTerm ` set (wasteTerms r)
           \<or> (length (wasteTerms r) = 15 \<and> (\<forall>wt\<in>set (wasteTerms r). st_spend st \<le> wt_spend wt))"
    if nn: "isAlreadyNegated negs (Some t) = Inr False"
  proof (cases "wt0 \<in> set (take 15 W)")
    case True
    then have "wt_searchTerm wt0 \<in> wt_searchTerm ` set (wasteTerms r)"
      unfolding w W_def by (rule imageI)
    then show ?thesis by (simp add: t0(1))
  next
    case False
    with inW[OF nn] have "take 15 W \<noteq> W" by auto
    then have "length W > 15" by (metis take_all not_le_imp_less)
    then have len: "length (wasteTerms r) = 15"
      by (simp add: w flip: W_def)
    have "\<forall>wt\<in>set (take 15 W). - wt_spend wt \<le> - wt_spend wt0"
      using sorted_take_bound[OF srt inW[OF nn] False] by blast
    then have "\<forall>wt\<in>set (wasteTerms r). st_spend st \<le> wt_spend wt"
      by (simp add: w t0(3) flip: W_def)
    with len show ?thesis by simp
  qed
  have few: "(Some t \<in> wt_searchTerm ` set (wasteTerms r)) \<noteq> (Some t \<in> cw_keyword ` set (alreadyCovered r))"
    if le: "length (filter (\<lambda>s. isWasteCandidate s \<and> isAlreadyNegated negs (st_searchTerm s) = Inr False) rows) \<le> 15"
  proof (cases "wt_alreadyNegative wt0")
    case True
    with t0(2) neg both show ?thesis by auto
  next
    case False
    have "length (filter (\<lambda>wt. \<not> wt_alreadyNegative wt) wts)
        = length (filter (\<lambda>s. isAlreadyNegated negs (st_searchTerm s) = Inr False) (filter isWasteCandidate rows))"
    proof (rule mapE_Inr_filter_length[OF m])
      fix x y assume "x \<in> set (filter isWasteCandidate rows)" "toWasteTerm negs x = Inr y"
      from toWasteTerm_Inr(1)[OF this(2)]
      show "(\<not> wt_alreadyNegative y) = (isAlreadyNegated negs (st_searchTerm x) = Inr False)"
        by auto
    qed
    moreover have "length W = length (filter (\<lambda>wt. \<not> wt_alreadyNegative wt) wts)"
      unfolding W_def by (metis filter_sort length_sort)
    ultimately have "length W \<le> 15"
      using le by (simp add: conj_commute)
    then have "wasteTerms r = W"
      by (simp add: w flip: W_def)
    moreover from False t0(2) have "wt0 \<in> set W"
      using inW by simp
    ultimately have "wt_searchTerm wt0 \<in> wt_searchTerm ` set (wasteTerms r)"
      by simp
    with both show ?thesis by (auto simp: t0(1))
  qed
  from both neg notneg few show ?thesis by blast
qed

text \<open>Witness for the amended C1: the negated row of the three-row example.\<close>

theorem waste_candidate_placement_witness:
  "analyzeSearchTermsForGaps (Rows [attorneyRow, lawyerRow, letterRow]) (Rows []) [''attorney'']
     = Inr exampleResult
   \<and> attorneyRow \<in> set [attorneyRow, lawyerRow, letterRow]
   \<and> st_searchTerm attorneyRow = Some ''hoa attorney help''
   \<and> hasWrongIntent ''hoa attorney help''
   \<and> st_clicks attorneyRow \<ge> 1 \<and> st_conversions attorneyRow = 0 \<and> st_spend attorneyRow > 2
   \<and> isAlreadyNegated [''attorney''] (Some ''hoa attorney help'') = Inr True
   \<and> Some ''hoa attorney help'' \<in> cw_keyword ` set (alreadyCovered exampleResult)
   \<and> \<not> (Some ''hoa attorney help'' \<in> wt_searchTerm ` set (wasteTerms exampleResult)
          \<and> Some ''hoa attorney help'' \<in> cw_keyword ` set (alreadyCovered exampleResult))"
proof -
  have h: "attorneyRow \<in> set [attorneyRow, lawyerRow, letterRow]"
    "st_searchTerm attorneyRow = Some ''hoa attorney help''"
    "st_clicks attorneyRow \<ge> 1" "st_conversions attorneyRow = 0" "st_spend attorneyRow > 2"
    by (simp_all add: attorneyRow_def)
  have w: "hasWrongIntent ''hoa attorney help''" by code_simp
  have n: "isAlreadyNegated [''attorney''] (Some ''hoa attorney help'') = Inr True" by code_simp
  from waste_candidate_placement[OF example_classification h(1,2) w h(3,4,5)] n
    example_classification h w
  show ?thesis by blast
qed

section \<open>Negation by substring\<close>

text \<open>
  C3. A term counts as negated when its lower-cased, trimmed text is in the negative set
  or has a member of the set as a contiguous substring. With the set holding
  \<open>attorney\<close>, the term \<open>hoa attorney help\<close> with 3 clicks, no conversion and a spend of
  5.00 is in \<open>alreadyCovered\<close> and \<open>wasteTerms\<close> is empty.
\<close>

theorem negated_by_substring:
  "isAlreadyNegated negs (Some t) =
     Inr (trim (toLowerCase t) \<in> set negs
          \<or> (\<exists>n\<in>set negs. \<exists>p s. trim (toLowerCase t) = p @ n @ s))
   \<and> analyzeSearchTermsForGaps
        (Rows [\<lparr> st_searchTerm = Some ''hoa attorney help'', st_status = status, st_spend = 5,
                 st_clicks = 3, st_impressions = impressions, st_conversions = 0, st_ctr = ctr \<rparr>])
        kws [''attorney'']
     = Inr \<lparr> opportunities = [], wasteTerms = [],
             alreadyCovered = [\<lparr> cw_keyword = Some ''hoa attorney help'', cw_wastedSpend = 5,
                                 cw_note = ''already negated'' \<rparr>],
             stats = \<lparr> totalSearchTerms = 1, confirmedGaps = 0, confirmedWaste = 0,
                       totalWastedOnWrongIntent = Fin 0, alreadyNegated = 1 \<rparr> \<rparr>"
proof
  show "isAlreadyNegated negs (Some t) =
     Inr (trim (toLowerCase t) \<in> set negs
          \<or> (\<exists>n\<in>set negs. \<exists>p s. trim (toLowerCase t) = p @ n @ s))"
    by (simp add: isAlreadyNegated_def Let_def list_ex_iff includesStr_iff)
next
  have w: "hasWrongIntent ''hoa attorney help''" by code_simp
  have n: "isAlreadyNegated [''attorney''] (Some ''hoa attorney help'') = Inr True" by code_simp
  show "analyzeSearchTermsForGaps
        (Rows [\<lparr> st_searchTerm = Some ''hoa attorney help'', st_status = status, st_spend = 5,
                 st_clicks = 3, st_impressions = impressions, st_conversions = 0, st_ctr = ctr \<rparr>])
        kws [''attorney'']
     = Inr \<lparr> opportunities = [], wasteTerms = [],
             alreadyCovered = [\<lparr> cw_keyword = Some ''hoa attorney help'', cw_wastedSpend = 5,
                                 cw_note = ''already negated'' \<rparr>],
             stats = \<lparr> totalSearchTerms = 1, confirmedGaps = 0, confirmedWaste = 0,
                       totalWastedOnWrongIntent = Fin 0, alreadyNegated = 1 \<rparr> \<rparr>"
    by (simp add: analyzeSearchTermsForGaps_def isOpportunity_def isWasteCandidate_def
        termOrEmpty_def toWasteTerm_def toCovered_def w n cents_of_zero)
qed

text \<open>Witness for C3: the substring case, where the term itself is not in the set.\<close>

theorem negated_by_substring_witness:
  "''hoa attorney help'' \<notin> set [''attorney'']
   \<and> isAlreadyNegated [''attorney''] (Some ''hoa attorney help'') = Inr True"
proof -
  have "trim (toLowerCase ''hoa attorney help'') = ''hoa '' @ ''attorney'' @ '' help''"
    by code_simp
  then have "\<exists>n\<in>set [''attorney'']. \<exists>p s. trim (toLowerCase ''hoa attorney help'') = p @ n @ s"
    by (metis list.set_intros(1))
  with negated_by_substring[of "[''attorney'']" "''hoa attorney help''"]
  show ?thesis by simp
qed

section \<open>Opportunities\<close>

text \<open>
  C4, as stated, fails on \<open>actualCpc\<close>: the engine rounds the quotient to cents. A spend of
  1.00 over 3 clicks carries the number 0.33, which is neither the number \<open>1.00 / 3\<close> nor
  one third.
\<close>

theorem opportunity_cpc_counterexample:
  "opportunities (projr (analyzeSearchTermsForGaps (Rows [centsRow]) (Rows []) []))
     = [\<lparr> opp_searchTerm = Some ''hoa fine letter'', opp_clicks = 3, opp_impressions = 10,
          opp_spend = 1, opp_conversions = 0, opp_ctr = 30, opp_actualCpc = fl (33 / 100),
          opp_intentScore = high \<rparr>]
   \<and> fl (33 / 100) = Fin (5944751508129055 / 18014398509481984)
   \<and> jsDiv (Fin (st_spend centsRow)) (Fin (of_int (st_clicks centsRow)))
       = Fin (6004799503160661 / 18014398509481984)
   \<and> fl (33 / 100) \<noteq> jsDiv (Fin (st_spend centsRow)) (Fin (of_int (st_clicks centsRow)))
   \<and> fl (33 / 100) \<noteq> Fin (st_spend centsRow / of_int (st_clicks centsRow))"
  by code_simp

text \<open>
  The rounding is that of the doubles, not of the decimals: the number written 2.01 over 2
  clicks gives 100.49999999999999 cents before \<open>Math.round\<close>, hence 1.00.
\<close>

lemma actualCpc_binary64:
  "fl (201 / 100) = Fin (1131529406376837 / 562949953421312)
   \<and> actualCpc (1131529406376837 / 562949953421312) 2 = Fin 1"
  by code_simp

text \<open>
  C4, amended. \<open>opportunities\<close> is the first 20 entries of a list that is in descending
  order of clicks and holds exactly the rows with at least one click, no wrong-intent word
  and a lower-cased trimmed term that is not an existing keyword. Each entry has at least
  one click and carries \<open>actualCpc\<close> = \<open>Math.round((spend / clicks) * 100) / 100\<close>, every
  operation in binary64 arithmetic: the quotient rounded to cents, a half going up. The single
  row \<open>diy hoa response letter\<close> with 5 clicks, spend 4.00 and 1 conversion gives one
  opportunity whose \<open>actualCpc\<close> is the number 0.80.
\<close>

theorem opportunities_top20:
  "(analyzeSearchTermsForGaps (Rows rows) kws negs = Inr r \<longrightarrow>
      (\<exists>full. opportunities r = take 20 full
         \<and> sorted_wrt (\<lambda>a b. opp_clicks a \<ge> opp_clicks b) full
         \<and> mset (map (\<lambda>a. (opp_searchTerm a, opp_clicks a, opp_spend a)) full)
             = mset (map (\<lambda>st. (st_searchTerm st, st_clicks st, st_spend st))
                  (filter (\<lambda>st. st_clicks st \<ge> 1
                       \<and> \<not> hasWrongIntent (termOrEmpty (st_searchTerm st))
                       \<and> trim (toLowerCase (termOrEmpty (st_searchTerm st)))
                           \<notin> {trim (toLowerCase k) |k.
                                \<exists>kw\<in>set (case usableRows kws of None \<Rightarrow> [] | Some ks \<Rightarrow> ks).
                                  kw_keyword kw = Some k \<and> k \<noteq> []})
                     rows)))
      \<and> (\<forall>a\<in>set (opportunities r). opp_clicks a \<ge> 1
            \<and> opp_actualCpc a
                = jsDiv (mathRound (jsMul (jsDiv (Fin (opp_spend a)) (Fin (of_int (opp_clicks a))))
                          (Fin 100))) (Fin 100)))
   \<and> analyzeSearchTermsForGaps
        (Rows [\<lparr> st_searchTerm = Some ''diy hoa response letter'', st_status = status, st_spend = 4,
                 st_clicks = 5, st_impressions = impressions, st_conversions = 1, st_ctr = ctr \<rparr>])
        (Rows []) []
     = Inr \<lparr> opportunities =
               [\<lparr> opp_searchTerm = Some ''diy hoa response letter'', opp_clicks = 5,
                  opp_impressions = impressions, opp_spend = 4, opp_conversions = 1, opp_ctr = ctr,
                  opp_actualCpc = fl (80 / 100), opp_intentScore = high \<rparr>],
             wasteTerms = [], alreadyCovered = [],
             stats = \<lparr> totalSearchTerms = 1, confirmedGaps = 1, confirmedWaste = 0,
                       totalWastedOnWrongIntent = Fin 0, alreadyNegated = 0 \<rparr> \<rparr>
   \<and> fl (80 / 100) = Fin (3602879701896397 / 4503599627370496)"
proof (intro conjI impI)
  assume r: "analyzeSearchTermsForGaps (Rows rows) kws negs = Inr r"
  let ?cand = "filter (isOpportunity (existingKeywords kws)) rows"
  from r obtain opps where
      m: "mapE toOpportunity ?cand = Inr opps"
      and o: "opportunities r = take 20 (sort_key (\<lambda>a. - opp_clicks a) opps)"
    by (rule analyze_RowsE)
  let ?full = "sort_key (\<lambda>a. - opp_clicks a) opps"
  have s: "sorted_wrt (\<lambda>a b. opp_clicks a \<ge> opp_clicks b) ?full"
    using sorted_sort_key[of "\<lambda>a. - opp_clicks a" opps] by (simp add: sorted_map)
  have k: "map (\<lambda>a. (opp_searchTerm a, opp_clicks a, opp_spend a)) opps
      = map (\<lambda>st. (st_searchTerm st, st_clicks st, st_spend st)) ?cand"
  proof (rule mapE_Inr_map[OF m])
    fix x y assume "toOpportunity x = Inr y"
    from toOpportunity_Inr[OF this]
    show "(opp_searchTerm y, opp_clicks y, opp_spend y) = (st_searchTerm x, st_clicks x, st_spend x)"
      by auto
  qed
  have c: "?cand = filter (\<lambda>st. st_clicks st \<ge> 1
                       \<and> \<not> hasWrongIntent (termOrEmpty (st_searchTerm st))
                       \<and> trim (toLowerCase (termOrEmpty (st_searchTerm st)))
                           \<notin> {trim (toLowerCase k) |k.
                                \<exists>kw\<in>set (case usableRows kws of None \<Rightarrow> [] | Some ks \<Rightarrow> ks).
                                  kw_keyword kw = Some k \<and> k \<noteq> []})
                     rows"
    unfolding isOpportunity_def Let_def existingKeywords_set ..
  have "mset (map (\<lambda>a. (opp_searchTerm a, opp_clicks a, opp_spend a)) ?full)
      = mset (map (\<lambda>a. (opp_searchTerm a, opp_clicks a, opp_spend a)) opps)"
    by simp
  also note k
  also note c
  finally have ms: "mset (map (\<lambda>a. (opp_searchTerm a, opp_clicks a, opp_spend a)) ?full)
             = mset (map (\<lambda>st. (st_searchTerm st, st_clicks st, st_spend st))
                  (filter (\<lambda>st. st_clicks st \<ge> 1
                       \<and> \<not> hasWrongIntent (termOrEmpty (st_searchTerm st))
                       \<and> trim (toLowerCase (termOrEmpty (st_searchTerm st)))
                           \<notin> {trim (toLowerCase k) |k.
                                \<exists>kw\<in>set (case usableRows kws of None \<Rightarrow> [] | Some ks \<Rightarrow> ks).
                                  kw_keyword kw = Some k \<and> k \<noteq> []})
                     rows))" .
  from o s ms show "\<exists>full. opportunities r = take 20 full
         \<and> sorted_wrt (\<lambda>a b. opp_clicks a \<ge> opp_clicks b) full
         \<and> mset (map (\<lambda>a. (opp_searchTerm a, opp_clicks a, opp_spend a)) full)
             = mset (map (\<lambda>st. (st_searchTerm st, st_clicks st, st_spend st))
                  (filter (\<lambda>st. st_clicks st \<ge> 1
                       \<and> \<not> hasWrongIntent (termOrEmpty (st_searchTerm st))
                       \<and> trim (toLowerCase (termOrEmpty (st_searchTerm st)))
                           \<notin> {trim (toLowerCase k) |k.
                                \<exists>kw\<in>set (case usableRows kws of None \<Rightarrow> [] | Some ks \<Rightarrow> ks).
                                  kw_keyword kw = Some k \<and> k \<noteq> []})
                     rows))"
    by blast
  show "\<forall>a\<in>set (opportunities r). opp_clicks a \<ge> 1
            \<and> opp_actualCpc a
                = jsDiv (mathRound (jsMul (jsDiv (Fin (opp_spend a)) (Fin (of_int (opp_clicks a))))
                          (Fin 100))) (Fin 100)"
  proof
    fix a assume "a \<in> set (opportunities r)"
    from opportunity_member[OF r this] obtain st where
      st: "isOpportunity (existingKeywords kws) st" "toOpportunity st = Inr a"
      by blast
    from st(1) have "st_clicks st \<ge> 1" by (simp add: isOpportunity_def Let_def)
    with toOpportunity_Inr[OF st(2)]
    show "opp_clicks a \<ge> 1
            \<and> opp_actualCpc a
                = jsDiv (mathRound (jsMul (jsDiv (Fin (opp_spend a)) (Fin (of_int (opp_clicks a))))
                          (Fin 100))) (Fin 100)"
      by (simp add: actualCpc_def)
  qed
next
  have w: "\<not> hasWrongIntent ''diy hoa response letter''" by code_simp
  have n: "scoreIntent (Some ''diy hoa response letter'') = Inr high" by code_simp
  have c: "actualCpc 4 5 = fl (80 / 100)" by code_simp
  have e: "existingKeywords (Rows []) = []" by (simp add: existingKeywords_def)
  show "analyzeSearchTermsForGaps
        (Rows [\<lparr> st_searchTerm = Some ''diy hoa response letter'', st_status = status, st_spend = 4,
                 st_clicks = 5, st_impressions = impressions, st_conversions = 1, st_ctr = ctr \<rparr>])
        (Rows []) []
     = Inr \<lparr> opportunities =
               [\<lparr> opp_searchTerm = Some ''diy hoa response letter'', opp_clicks = 5,
                  opp_impressions = impressions, opp_spend = 4, opp_conversions = 1, opp_ctr = ctr,
                  opp_actualCpc = fl (80 / 100), opp_intentScore = high \<rparr>],
             wasteTerms = [], alreadyCovered = [],
             stats = \<lparr> totalSearchTerms = 1, confirmedGaps = 1, confirmedWaste = 0,
                       totalWastedOnWrongIntent = Fin 0, alreadyNegated = 0 \<rparr> \<rparr>"
    by (simp add: analyzeSearchTermsForGaps_def isOpportunity_def isWasteCandidate_def
        termOrEmpty_def toOpportunity_def w n cents_of_zero c e)
next
  show "fl (80 / 100) = Fin (3602879701896397 / 4503599627370496)"
    by code_simp
qed

text \<open>Witness for the amended C4: the opportunity of the three-row example.\<close>

theorem opportunities_top20_witness:
  "analyzeSearchTermsForGaps (Rows [attorneyRow, lawyerRow, letterRow]) (Rows []) [''attorney'']
     = Inr exampleResult
   \<and> hd (opportunities exampleResult) \<in> set (opportunities exampleResult)
   \<and> opp_clicks (hd (opportunities exampleResult)) \<ge> 1
   \<and> opp_actualCpc (hd (opportunities exampleResult))
       = jsDiv (mathRound (jsMul (jsDiv (Fin (opp_spend (hd (opportunities exampleResult))))
                                    (Fin (of_int (opp_clicks (hd (opportunities exampleResult))))))
                 (Fin 100))) (Fin 100)"
proof -
  have m: "hd (opportunities exampleResult) \<in> set (opportunities exampleResult)"
    by (simp add: exampleResult_def)
  from opportunities_top20[of "[attorneyRow, lawyerRow, letterRow]" "Rows []" "[''attorney'']" exampleResult]
    example_classification m
  show ?thesis by blast
qed

section \<open>Merging the negative keywords\<close>

lemma fold_campaign_keywords:
  "map (\<lambda>e. Some (en_keyword e)) (existingNegatives (foldl addCampaignNegative acc rows))
     = map (\<lambda>e. Some (en_keyword e)) (existingNegatives acc)
       @ filter (\<lambda>k. k \<noteq> None \<and> k \<noteq> Some []) (map neg_keyword rows)"
  by (induction rows arbitrary: acc) (auto simp: addCampaignNegative_def split: option.splits)

lemma fold_shared_keywords:
  "map (\<lambda>e. Some (en_keyword e)) (existingNegatives (foldl addSharedSetNegative acc rows))
     = map (\<lambda>e. Some (en_keyword e)) (existingNegatives acc)
       @ filter (\<lambda>k. k \<noteq> None \<and> k \<noteq> Some []) (map neg_keyword rows)"
  by (induction rows arbitrary: acc) (auto simp: addSharedSetNegative_def split: option.splits)

lemma fold_campaign_scope:
  "map en_scope (existingNegatives (foldl addCampaignNegative acc rows))
     = map en_scope (existingNegatives acc)
       @ map (\<lambda>n. ''campaign'') (filter (\<lambda>n. neg_keyword n \<noteq> None \<and> neg_keyword n \<noteq> Some []) rows)"
  by (induction rows arbitrary: acc) (auto simp: addCampaignNegative_def split: option.splits)

lemma fold_shared_scope:
  "map en_scope (existingNegatives (foldl addSharedSetNegative acc rows))
     = map en_scope (existingNegatives acc)
       @ map (\<lambda>n. ''account'') (filter (\<lambda>n. neg_keyword n \<noteq> None \<and> neg_keyword n \<noteq> Some []) rows)"
  by (induction rows arbitrary: acc) (auto simp: addSharedSetNegative_def split: option.splits)

lemma fold_campaign_set:
  "set (negativeKeywordsSet (foldl addCampaignNegative acc rows))
     = set (negativeKeywordsSet acc)
       \<union> {trim (toLowerCase k) |k. \<exists>n\<in>set rows. neg_keyword n = Some k \<and> k \<noteq> []}"
  by (induction rows arbitrary: acc)
     (auto simp: addCampaignNegative_def setAdd_def split: option.splits)

lemma fold_shared_set:
  "set (negativeKeywordsSet (foldl addSharedSetNegative acc rows))
     = set (negativeKeywordsSet acc)
       \<union> {trim (toLowerCase k) |k. \<exists>n\<in>set rows. neg_keyword n = Some k \<and> k \<noteq> []}"
  by (induction rows arbitrary: acc)
     (auto simp: addSharedSetNegative_def setAdd_def split: option.splits)

lemma fold_campaign_distinct:
  "distinct (negativeKeywordsSet acc) \<Longrightarrow> distinct (negativeKeywordsSet (foldl addCampaignNegative acc rows))"
  by (induction rows arbitrary: acc)
     (auto simp: addCampaignNegative_def setAdd_def split: option.splits)

lemma fold_shared_distinct:
  "distinct (negativeKeywordsSet acc) \<Longrightarrow> distinct (negativeKeywordsSet (foldl addSharedSetNegative acc rows))"
  by (induction rows arbitrary: acc)
     (auto simp: addSharedSetNegative_def setAdd_def split: option.splits)

lemma scope_of_rows:
  "\<forall>n\<in>set rows. neg_scope n = sc \<Longrightarrow> map (\<lambda>n. sc) (filter P rows) = map neg_scope (filter P rows)"
  by (induction rows) auto

text \<open>
  C8. The detailed list holds the keywords of the campaign rows, then of the shared-set rows,
  in order and as written, without the rows whose keyword is missing or empty. Campaign rows
  get the scope \<open>campaign\<close> and shared-set rows the scope \<open>account\<close>, which is each row's
  own scope when the rows carry the scope of their source. The match set holds exactly the
  lower-cased trimmed keywords of the rows kept, each once. Empty inputs give an empty list
  and an empty set.
\<close>

theorem combine_negatives_merge:
  "map (\<lambda>e. Some (en_keyword e)) (existingNegatives (combineNegativeKeywords (Rows camp) (Rows shared)))
     = filter (\<lambda>k. k \<noteq> None \<and> k \<noteq> Some []) (map neg_keyword (camp @ shared))
   \<and> map en_scope (existingNegatives (combineNegativeKeywords (Rows camp) (Rows shared)))
     = map (\<lambda>n. ''campaign'') (filter (\<lambda>n. neg_keyword n \<noteq> None \<and> neg_keyword n \<noteq> Some []) camp)
       @ map (\<lambda>n. ''account'') (filter (\<lambda>n. neg_keyword n \<noteq> None \<and> neg_keyword n \<noteq> Some []) shared)
   \<and> ((\<forall>n\<in>set camp. neg_scope n = ''campaign'') \<and> (\<forall>n\<in>set shared. neg_scope n = ''account'') \<longrightarrow>
        map en_scope (existingNegatives (combineNegativeKeywords (Rows camp) (Rows shared)))
          = map neg_scope (filter (\<lambda>n. neg_keyword n \<noteq> None \<and> neg_keyword n \<noteq> Some []) (camp @ shared)))
   \<and> set (negativeKeywordsSet (combineNegativeKeywords (Rows camp) (Rows shared)))
     = {trim (toLowerCase k) |k. \<exists>n\<in>set (camp @ shared). neg_keyword n = Some k \<and> k \<noteq> []}
   \<and> distinct (negativeKeywordsSet (combineNegativeKeywords (Rows camp) (Rows shared)))
   \<and> combineNegativeKeywords (Rows []) (Rows []) = \<lparr> existingNegatives = [], negativeKeywordsSet = [] \<rparr>"
proof (intro conjI impI)
  show "map (\<lambda>e. Some (en_keyword e)) (existingNegatives (combineNegativeKeywords (Rows camp) (Rows shared)))
     = filter (\<lambda>k. k \<noteq> None \<and> k \<noteq> Some []) (map neg_keyword (camp @ shared))"
    by (simp add: combineNegativeKeywords_def fold_campaign_keywords fold_shared_keywords)
  show sc: "map en_scope (existingNegatives (combineNegativeKeywords (Rows camp) (Rows shared)))
     = map (\<lambda>n. ''campaign'') (filter (\<lambda>n. neg_keyword n \<noteq> None \<and> neg_keyword n \<noteq> Some []) camp)
       @ map (\<lambda>n. ''account'') (filter (\<lambda>n. neg_keyword n \<noteq> None \<and> neg_keyword n \<noteq> Some []) shared)"
    by (simp add: combineNegativeKeywords_def fold_campaign_scope fold_shared_scope)
  show "map en_scope (existingNegatives (combineNegativeKeywords (Rows camp) (Rows shared)))
          = map neg_scope (filter (\<lambda>n. neg_keyword n \<noteq> None \<and> neg_keyword n \<noteq> Some []) (camp @ shared))"
    if "(\<forall>n\<in>set camp. neg_scope n = ''campaign'') \<and> (\<forall>n\<in>set shared. neg_scope n = ''account'')"
    using that by (simp add: sc scope_of_rows)
  show "set (negativeKeywordsSet (combineNegativeKeywords (Rows camp) (Rows shared)))
     = {trim (toLowerCase k) |k. \<exists>n\<in>set (camp @ shared). neg_keyword n = Some k \<and> k \<noteq> []}"
    by (auto simp: combineNegativeKeywords_def fold_campaign_set fold_shared_set)
  show "distinct (negativeKeywordsSet (combineNegativeKeywords (Rows camp) (Rows shared)))"
    by (simp add: combineNegativeKeywords_def fold_campaign_distinct fold_shared_distinct)
  show "combineNegativeKeywords (Rows []) (Rows []) = \<lparr> existingNegatives = [], negativeKeywordsSet = [] \<rparr>"
    by (simp add: combineNegativeKeywords_def)
qed

text \<open>Witness for C8: a padded keyword, an empty one, a missing one and a mixed-case one.\<close>

theorem combine_negatives_merge_witness:
  "map neg_scope campaignNegativeRows = [''campaign'', ''campaign'']
   \<and> map neg_scope sharedNegativeRows = [''account'', ''account'']
   \<and> map en_keyword (existingNegatives (combineNegativeKeywords (Rows campaignNegativeRows) (Rows sharedNegativeRows)))
       = ['' Attorney '', ''Free Template'']
   \<and> map en_scope (existingNegatives (combineNegativeKeywords (Rows campaignNegativeRows) (Rows sharedNegativeRows)))
       = [''campaign'', ''account'']
   \<and> negativeKeywordsSet (combineNegativeKeywords (Rows campaignNegativeRows) (Rows sharedNegativeRows))
       = [''attorney'', ''free template'']"
proof -
  have h: "(\<forall>n\<in>set campaignNegativeRows. neg_scope n = ''campaign'')
     \<and> (\<forall>n\<in>set sharedNegativeRows. neg_scope n = ''account'')"
    by (simp add: campaignNegativeRows_def sharedNegativeRows_def)
  have g: "map neg_scope campaignNegativeRows = [''campaign'', ''campaign'']"
      "map neg_scope sharedNegativeRows = [''account'', ''account'']"
    by (simp_all add: campaignNegativeRows_def sharedNegativeRows_def)
  have k: "map en_keyword (existingNegatives (combineNegativeKeywords (Rows campaignNegativeRows) (Rows sharedNegativeRows)))
       = ['' Attorney '', ''Free Template'']"
    by code_simp
  have s: "negativeKeywordsSet (combineNegativeKeywords (Rows campaignNegativeRows) (Rows sharedNegativeRows))
       = [''attorney'', ''free template'']"
    by code_simp
  have f: "map neg_scope (filter (\<lambda>n. neg_keyword n \<noteq> None \<and> neg_keyword n \<noteq> Some [])
              (campaignNegativeRows @ sharedNegativeRows)) = [''campaign'', ''account'']"
    by (simp add: campaignNegativeRows_def sharedNegativeRows_def)
  from combine_negatives_merge[of campaignNegativeRows sharedNegativeRows] h
  have "map en_scope (existingNegatives (combineNegativeKeywords (Rows campaignNegativeRows) (Rows sharedNegativeRows)))
          = map neg_scope (filter (\<lambda>n. neg_keyword n \<noteq> None \<and> neg_keyword n \<noteq> Some [])
              (campaignNegativeRows @ sharedNegativeRows))"
    by blast
  with g k s f show ?thesis by simp
qed

section \<open>The in-process tier of the job store\<close>

text \<open>
  C7. After \<open>saveJob\<close> for a job id, \<open>loadJob\<close> for that id returns the record saved,
  whatever the durable backend did on the write (not configured, stored, returned an error,
  raised) and whatever it would do on the read: the in-process map is written first and
  read first.
\<close>

theorem saved_job_visible_in_process:
  "loadJob supabase' select jobId (saveJob supabase upsert jobId data st) = Some data"
  by (simp add: loadJob_def saveJob_def Let_def split: backend.splits backend_outcome.splits)

section \<open>The client poller\<close>

lemma updSub_view [simp]:
  "length (submissions (updSub m f s)) = length (submissions s)"
  "pollingSubscription (updSub m f s) = pollingSubscription s"
  "n < length (submissions s) \<Longrightarrow>
     submissions (updSub m f s) ! n = (if m = n then f (submissions s ! n) else submissions s ! n)"
  by (simp_all add: updSub_def nth_list_update)

lemma cancelPolling_view [simp]:
  "length (submissions (cancelPolling s)) = length (submissions s)"
  "pollingSubscription (cancelPolling s) = None"
  "n < length (submissions s) \<Longrightarrow>
     submissions (cancelPolling s) ! n =
       (if pollingSubscription s = Some n then (submissions s ! n)\<lparr> intervalActive := False \<rparr>
        else submissions s ! n)"
  by (auto simp: cancelPolling_def split: option.splits)

lemma subjectNext_view [simp]:
  "length (submissions (subjectNext m v s)) = length (submissions s)"
  "pollingSubscription (subjectNext m v s) = pollingSubscription s"
  "n < length (submissions s) \<Longrightarrow>
     submissions (subjectNext m v s) ! n =
       (if m = n \<and> \<not> stopped (submissions s ! n)
        then (submissions s ! n)\<lparr> emitted := emitted (submissions s ! n) @ [v] \<rparr>
        else submissions s ! n)"
  by (auto simp: subjectNext_def)

lemma subjectComplete_view [simp]:
  "length (submissions (subjectComplete m s)) = length (submissions s)"
  "pollingSubscription (subjectComplete m s) = pollingSubscription s"
  "n < length (submissions s) \<Longrightarrow>
     submissions (subjectComplete m s) ! n =
       (if m = n then (submissions s ! n)\<lparr> stopped := True \<rparr> else submissions s ! n)"
  by (auto simp: subjectComplete_def)

lemma startPolling_view [simp]:
  "length (submissions (startPolling m jid s)) = length (submissions s)"
  "pollingSubscription (startPolling m jid s) = Some m"
  "n < length (submissions s) \<Longrightarrow>
     submissions (startPolling m jid s) ! n =
       (if m = n
        then (submissions s ! n)\<lparr> polledJobId := Some jid, attempts := 0, intervalActive := True \<rparr>
        else submissions s ! n)"
  by (auto simp: startPolling_def)

lemma getSuggestions_view [simp]:
  "length (submissions (getSuggestions s)) = Suc (length (submissions s))"
  "pollingSubscription (getSuggestions s) = None"
  "n < length (submissions s) \<Longrightarrow>
     submissions (getSuggestions s) ! n =
       (if pollingSubscription s = Some n then (submissions s ! n)\<lparr> intervalActive := False \<rparr>
        else submissions s ! n)"
  "submissions (getSuggestions s) ! length (submissions s) = newSubmission"
  by (auto simp: getSuggestions_def Let_def nth_append)

lemma answered_view [simp]:
  "length (submissions (answered m s)) = length (submissions s)"
  "pollingSubscription (answered m s) = pollingSubscription s"
  "n < length (submissions s) \<Longrightarrow>
     submissions (answered m s) ! n =
       (if m = n then (submissions s ! n)\<lparr> getsPending := getsPending (submissions s ! n) - 1 \<rparr>
        else submissions s ! n)"
  by (auto simp: answered_def)

lemmas handler_defs = onPostResponse_def onTick_def onPollResponse_def onPollError_def Let_def

text \<open>A completed subject stays completed and passes nothing on.\<close>

lemma step_length: "length (submissions s) \<le> length (submissions (step M e s))"
  by (cases e)
     (auto simp: onPostResponse_def onTick_def onPollResponse_def onPollError_def Let_def
           split: option.splits)


lemma run_length: "length (submissions s) \<le> length (submissions (run M es s))"
proof (induction es arbitrary: s)
  case Nil
  then show ?case by simp
next
  case (Cons e es)
  have "length (submissions s) \<le> length (submissions (step M e s))" by (rule step_length)
  also have "\<dots> \<le> length (submissions (run M es (step M e s)))" by (rule Cons.IH)
  finally show ?case by simp
qed



text \<open>Facts about every state the service can reach.\<close>

lemma step_invariant:
  assumes "serviceInvariant M s"
  shows "serviceInvariant M (step M e s)"
proof (cases e)
  case GetSuggestions
  with assms show ?thesis
    by (auto simp: serviceInvariant_def less_Suc_eq newSubmission_def)
next
  case (PostReply n r)
  with assms show ?thesis
    unfolding serviceInvariant_def by (auto simp: handler_defs split: option.splits)
next
  case (PostFailed n err)
  with assms show ?thesis
    unfolding serviceInvariant_def by (auto simp: handler_defs split: option.splits)
next
  case (Tick n)
  with assms show ?thesis
    unfolding serviceInvariant_def by (auto simp: handler_defs split: option.splits)
next
  case (PollReply n r)
  with assms show ?thesis
    unfolding serviceInvariant_def by (auto simp: handler_defs split: option.splits)
next
  case (PollFailed n err)
  with assms show ?thesis
    unfolding serviceInvariant_def by (auto simp: handler_defs split: option.splits)
qed

lemma run_snoc: "run M (es @ [e]) s = step M e (run M es s)"
  by (induction es arbitrary: s) auto

lemma reachable_invariant: "serviceInvariant M (run M es initService)"
proof (induction es rule: rev_induct)
  case Nil
  show ?case by (simp add: serviceInvariant_def initService_def)
next
  case (snoc e es)
  then show ?case unfolding run_snoc by (rule step_invariant)
qed

lemma current_poll:
  assumes "s = run M es initService" "pollingSubscription s = Some n"
  shows "n < length (submissions s)" "\<not> postPending (submissions s ! n)"
    "intervalActive (submissions s ! n)" "\<not> stopped (submissions s ! n)"
    "attempts (submissions s ! n) \<le> M" "emitted (submissions s ! n) = []"
    "getsIssued (submissions s ! n) = attempts (submissions s ! n)"
  using reachable_invariant[of M es] assms
  by (auto simp: serviceInvariant_def)

text \<open>A submission whose POST has answered and whose interval is off stays as it is.\<close>

lemma step_idle:
  assumes "n < length (submissions s)" "\<not> postPending (submissions s ! n)"
    "\<not> intervalActive (submissions s ! n)"
  shows "\<not> postPending (submissions (step M e s) ! n)
       \<and> \<not> intervalActive (submissions (step M e s) ! n)
       \<and> getsIssued (submissions (step M e s) ! n) = getsIssued (submissions s ! n)"
  using assms
  by (cases e) (auto simp: handler_defs split: option.splits)

lemma run_idle:
  assumes "n < length (submissions s)" "\<not> postPending (submissions s ! n)"
    "\<not> intervalActive (submissions s ! n)"
  shows "\<not> intervalActive (submissions (run M es s) ! n)
       \<and> getsIssued (submissions (run M es s) ! n) = getsIssued (submissions s ! n)"
  using assms
proof (induction es arbitrary: s)
  case Nil
  then show ?case by simp
next
  case (Cons e es)
  from step_idle[OF Cons.prems, of M e]
  have a: "\<not> postPending (submissions (step M e s) ! n)"
      "\<not> intervalActive (submissions (step M e s) ! n)"
      "getsIssued (submissions (step M e s) ! n) = getsIssued (submissions s ! n)"
    by blast+
  from Cons.prems(1) have b: "n < length (submissions (step M e s))"
    using step_length[of s M e] by simp
  from Cons.IH[OF b a(1,2)] a(3) show ?case by simp
qed









text \<open>What a new submission does to the poll it replaces: its interval is off for good.\<close>

lemma second_submission_stops_ticks:
  assumes "s = run M es initService" and "pollingSubscription s = Some n"
  shows "\<not> intervalActive (submissions (run M later (step M GetSuggestions s)) ! n)
       \<and> getsIssued (submissions (run M later (step M GetSuggestions s)) ! n)
           = getsIssued (submissions s ! n)"
proof -
  from current_poll[OF assms]
  have n: "n < length (submissions s)" and pp: "\<not> postPending (submissions s ! n)"
    by blast+
  have a: "n < length (submissions (step M GetSuggestions s))"
      "\<not> postPending (submissions (step M GetSuggestions s) ! n)"
      "\<not> intervalActive (submissions (step M GetSuggestions s) ! n)"
      "getsIssued (submissions (step M GetSuggestions s) ! n) = getsIssued (submissions s ! n)"
    using n pp assms(2) by simp_all
  from run_idle[OF a(1,2,3), of M later] a(4) show ?thesis by simp
qed

text \<open>
  C6. Job A is polling and one of its poll requests is still in flight when the caller
  submits again. The new submission unsubscribes A's interval, but the request in flight is
  not cancelled: when it answers \<open>complete\<close>, its handler emits the result to A's
  subscriber. Its call of \<open>cancelPolling\<close> also unsubscribes the interval of job B, which
  by then is the service's current poll, so B never completes.
\<close>

theorem superseded_poll_still_emits:
  "pollingSubscription (run 120
       [GetSuggestions, PostReply 0 (jobAccepted ''job_A''), Tick 0]
       (initService :: unit service)) = Some 0
   \<and> getsPending (submissions (run 120
       [GetSuggestions, PostReply 0 (jobAccepted ''job_A''), Tick 0]
       (initService :: unit service)) ! 0) = 1
   \<and> \<not> intervalActive (submissions (run 120
       [GetSuggestions, PostReply 0 (jobAccepted ''job_A''), Tick 0, GetSuggestions]
       (initService :: unit service)) ! 0)
   \<and> emitted (submissions (run 120
       [GetSuggestions, PostReply 0 (jobAccepted ''job_A''), Tick 0, GetSuggestions]
       (initService :: unit service)) ! 0) = []
   \<and> emitted (submissions (run 120
       [GetSuggestions, PostReply 0 (jobAccepted ''job_A''), Tick 0, GetSuggestions,
        PollReply 0 (jobComplete sampleResult)]
       (initService :: unit service)) ! 0) = [sampleResult]
   \<and> intervalActive (submissions (run 120
       [GetSuggestions, PostReply 0 (jobAccepted ''job_A''), Tick 0, GetSuggestions,
        PostReply 1 (jobAccepted ''job_B'')]
       (initService :: unit service)) ! 1)
   \<and> \<not> intervalActive (submissions (run 120
       [GetSuggestions, PostReply 0 (jobAccepted ''job_A''), Tick 0, GetSuggestions,
        PostReply 1 (jobAccepted ''job_B''), PollReply 0 (jobComplete sampleResult)]
       (initService :: unit service)) ! 1)
   \<and> \<not> stopped (submissions (run 120
       [GetSuggestions, PostReply 0 (jobAccepted ''job_A''), Tick 0, GetSuggestions,
        PostReply 1 (jobAccepted ''job_B''), PollReply 0 (jobComplete sampleResult)]
       (initService :: unit service)) ! 1)"
  by code_simp




end
